theory Spec2Isabelle
  imports Main "HOL-Library.Multiset"
begin

section \<open>Strings and errors\<close>

text \<open>
  Go strings are byte strings, modelled as \<open>string\<close>.  \<open>strings.ToLower\<close> is modelled on
  the ASCII letters; every other byte is left as it is.
\<close>

definition toLowerChar :: "char \<Rightarrow> char" where
  "toLowerChar c =
     (if 65 \<le> (of_char c :: nat) \<and> (of_char c :: nat) \<le> 90
      then char_of ((of_char c :: nat) + 32) else c)"

definition ToLower :: "string \<Rightarrow> string" where
  "ToLower s = map toLowerChar s"

text \<open>
  Go errors.  \<open>HTTPErr\<close> is \<open>libcarina.HTTPErr\<close> with its \<open>StatusCode\<close> (the only field
  the code reads); \<open>ErrorString\<close> is the value of \<open>errors.New\<close> and \<open>fmt.Errorf\<close>;
  \<open>Wrapped e msg\<close> is \<open>errors.Wrap(e, msg)\<close>; \<open>ErrNotExist\<close>, \<open>Errno\<close> and \<open>PathError\<close>
  are the errors of package \<open>os\<close>; \<open>ClientError\<close> is the value of the client package's
  \<open>newClientError\<close>.
\<close>

datatype error =
    HTTPErr int
  | ErrorString string
  | Wrapped error string
  | MultipleMatchingTemplatesError string
  | ErrNotExist
  | Errno nat
  | PathError string string error
  | ClientError error

text \<open>\<open>errors.Cause\<close>: the innermost error under the wrappers of \<open>errors.Wrap\<close>.\<close>

fun Cause :: "error \<Rightarrow> error" where
  "Cause (Wrapped e msg) = Cause e"
| "Cause e = e"

definition StatusNotFound :: int where
  "StatusNotFound = 404"

text \<open>
  Modelled from the spec: the matchers \<open>glob.Glob\<close> and \<open>glob.GlobI\<close> belong to a
  vendored package that is not among the sources.  The spec gives the syntax: \<open>*\<close> is
  any run of characters and \<open>?\<close> a single character, and template resolution folds case.
  \<open>Glob\<close> compares the bytes as they are; \<open>GlobI\<close> lowers both sides first.
\<close>

fun Glob :: "string \<Rightarrow> string \<Rightarrow> bool" where
  "Glob [] subj = (subj = [])"
| "Glob (p # ps) subj =
     (if p = CHR ''*'' then
        (Glob ps subj \<or> (case subj of [] \<Rightarrow> False | c # cs \<Rightarrow> Glob (p # ps) cs))
      else
        (case subj of [] \<Rightarrow> False | c # cs \<Rightarrow> (p = CHR ''?'' \<or> p = c) \<and> Glob ps cs))"

definition GlobI :: "string \<Rightarrow> string \<Rightarrow> bool" where
  "GlobI pattern subj = Glob (ToLower pattern) (ToLower subj)"

section \<open>The make-coe adapter\<close>

subsection \<open>Data\<close>

text \<open>
  \<open>Cluster\<close> is the make-coe cluster (a \<open>libcarina.Cluster\<close> behind the
  \<open>common.Cluster\<close> accessors \<open>GetID\<close>, \<open>GetName\<close>, \<open>GetStatus\<close>);
  \<open>ClusterType\<close> is \<open>libcarina.ClusterType\<close>, the template of a cluster.
\<close>

record Cluster =
  ID :: string
  Name :: string
  Status :: string
  Nodes :: int

record ClusterType =
  TypeID :: int
  TypeName :: string
  COE :: string
  HostType :: string

record CreateClusterOpts =
  OptName :: string
  OptClusterTypeID :: int
  OptNodes :: int

datatype Quotas = Quotas

type_synonym CredentialsBundle = "(string \<times> string) list"

definition GetID :: "Cluster \<Rightarrow> string" where
  "GetID c = ID c"

definition GetName :: "Cluster \<Rightarrow> string" where
  "GetName c = Name c"

definition GetStatus :: "Cluster \<Rightarrow> string" where
  "GetStatus c = Status c"

text \<open>
  Modelled from the spec: \<open>newCluster\<close> is declared in a file of the make-coe package that
  is not among the sources.  The "synthesized cluster record" of the spec is taken to be
  the cluster with every field at its zero value.
\<close>

definition newCluster :: Cluster where
  "newCluster = \<lparr>ID = [], Name = [], Status = [], Nodes = 0\<rparr>"

subsection \<open>The backend\<close>

text \<open>
  The remote service behind \<open>libcarina.CarinaClient\<close> is an external collaborator: a
  state \<open>'b\<close> and, for each call of the client, the answer it gives and the state it
  leaves.  \<open>Authenticate\<close> is \<open>Account.Authenticate\<close>, which yields the client or an
  error.
\<close>

record 'b Backend =
  Authenticate :: "'b \<Rightarrow> error option \<times> 'b"
  Create :: "CreateClusterOpts \<Rightarrow> 'b \<Rightarrow> (error + Cluster) \<times> 'b"
  Get :: "string \<Rightarrow> 'b \<Rightarrow> (error + Cluster) \<times> 'b"
  ListAll :: "'b \<Rightarrow> (error + Cluster list) \<times> 'b"
  ListClusterTypes :: "'b \<Rightarrow> (error + ClusterType list) \<times> 'b"
  Delete :: "string \<Rightarrow> 'b \<Rightarrow> (error + Cluster) \<times> 'b"
  Resize :: "string \<Rightarrow> int \<Rightarrow> 'b \<Rightarrow> (error + Cluster) \<times> 'b"
  GetCredentials :: "string \<Rightarrow> 'b \<Rightarrow> (error + CredentialsBundle) \<times> 'b"

text \<open>The calls sent to the backend, in the order they were made.\<close>

datatype request =
    ReqAuthenticate
  | ReqCreate CreateClusterOpts
  | ReqGet string
  | ReqList
  | ReqListClusterTypes
  | ReqDelete string
  | ReqResize string int
  | ReqGetCredentials string

text \<open>
  The \<open>MakeCOE\<close> struct: \<open>client\<close> says whether \<open>carina.client\<close> is set (not nil);
  \<open>clusterTypeCache\<close> is \<open>None\<close> for the nil map, else the map as the list of its
  entries, one per key; \<open>backend\<close> is the remote state and \<open>requests\<close> the calls made
  so far.
\<close>

record 'b MakeCOE =
  client :: bool
  clusterTypeCache :: "(int \<times> ClusterType) list option"
  backend :: 'b
  requests :: "request list"

definition send :: "request \<Rightarrow> ('b \<Rightarrow> 'r \<times> 'b) \<Rightarrow> 'b MakeCOE \<Rightarrow> 'r \<times> 'b MakeCOE" where
  "send rq call s =
     (case call (backend s) of
        (r, b') \<Rightarrow> (r, s\<lparr>backend := b', requests := requests s @ [rq]\<rparr>))"

subsection \<open>Error translation\<close>

definition handleNotAcceptable :: "int \<Rightarrow> error" where
  "handleNotAcceptable code =
     Wrapped (HTTPErr code)
       ''Unable to communicate with the Carina API because the client is out-of-date. Update the carina client to the latest version. See https://getcarina.com/docs/tutorials/carina-cli#update for instructions.''"

definition handleHTTPError :: "int \<Rightarrow> error" where
  "handleHTTPError code = (if code = 406 then handleNotAcceptable code else HTTPErr code)"

definition handleLibcarinaError :: "error \<Rightarrow> error" where
  "handleLibcarinaError err =
     (case Cause err of HTTPErr code \<Rightarrow> handleHTTPError code | _ \<Rightarrow> err)"

subsection \<open>Operations\<close>

definition init :: "'b Backend \<Rightarrow> 'b MakeCOE \<Rightarrow> error option \<times> 'b MakeCOE" where
  "init api s =
     (if \<not> client s then
        (case send ReqAuthenticate (Authenticate api) s of
           (Some err, s') \<Rightarrow> (Some err, s')
         | (None, s') \<Rightarrow> (None, s'\<lparr>client := True\<rparr>))
      else (None, s))"

definition GetQuotas :: "'b MakeCOE \<Rightarrow> (error + Quotas) \<times> 'b MakeCOE" where
  "GetQuotas s = (Inr Quotas, s)"

definition GetCluster :: "'b Backend \<Rightarrow> string \<Rightarrow> 'b MakeCOE \<Rightarrow> (error + Cluster) \<times> 'b MakeCOE" where
  "GetCluster api token s =
     (case init api s of
        (Some err, s1) \<Rightarrow> (Inl err, s1)
      | (None, s1) \<Rightarrow>
          (case send (ReqGet token) (Get api token) s1 of
             (Inl err, s2) \<Rightarrow>
               (Inl (handleLibcarinaError
                  (Wrapped err (''[make-coe] Unable to retrieve cluster ('' @ token @ '')''))), s2)
           | (Inr result, s2) \<Rightarrow> (Inr result, s2)))"

text \<open>
  \<open>lookupClusterTypeByName\<close> walks the cache and keeps the first template whose name
  matches; a second match ends the walk with the error.  \<open>store\<close> is the assignment
  \<open>cache[k] = v\<close> on the entries of a map.
\<close>

fun store :: "int \<Rightarrow> ClusterType \<Rightarrow> (int \<times> ClusterType) list \<Rightarrow> (int \<times> ClusterType) list" where
  "store k v [] = [(k, v)]"
| "store k v (e # es) = (if fst e = k then (k, v) # es else e # store k v es)"

fun fillCache :: "ClusterType list \<Rightarrow> (int \<times> ClusterType) list \<Rightarrow> (int \<times> ClusterType) list" where
  "fillCache [] cache = cache"
| "fillCache (clusterType # rest) cache = fillCache rest (store (TypeID clusterType) clusterType cache)"

definition listClusterTypes ::
  "'b Backend \<Rightarrow> 'b MakeCOE \<Rightarrow> (error + ClusterType list) \<times> 'b MakeCOE" where
  "listClusterTypes api s =
     (case send ReqListClusterTypes (ListClusterTypes api) s of
        (Inl err, s') \<Rightarrow>
          (Inl (handleLibcarinaError (Wrapped err ''[make-coe] Unabe to list cluster types'')), s')
      | (Inr clusterTypes, s') \<Rightarrow> (Inr clusterTypes, s'))"

definition getClusterTypeCache ::
  "'b Backend \<Rightarrow> 'b MakeCOE \<Rightarrow> (error + (int \<times> ClusterType) list) \<times> 'b MakeCOE" where
  "getClusterTypeCache api s =
     (case clusterTypeCache s of
        None \<Rightarrow>
          (case listClusterTypes api s of
             (Inl err, s') \<Rightarrow> (Inl err, s')
           | (Inr clusterTypes, s') \<Rightarrow>
               (let cache = fillCache clusterTypes []
                in (Inr cache, s'\<lparr>clusterTypeCache := Some cache\<rparr>)))
      | Some cache \<Rightarrow> (Inr cache, s))"

fun lookupLoop :: "string \<Rightarrow> ClusterType list \<Rightarrow> ClusterType option \<Rightarrow> error + ClusterType option" where
  "lookupLoop pattern [] clusterType = Inr clusterType"
| "lookupLoop pattern (m # ms) clusterType =
     (if \<not> GlobI pattern (TypeName m) then lookupLoop pattern ms clusterType
      else (case clusterType of
              None \<Rightarrow> lookupLoop pattern ms (Some m)
            | Some found \<Rightarrow> Inl (MultipleMatchingTemplatesError pattern)))"

definition lookupClusterTypeByName ::
  "'b Backend \<Rightarrow> string \<Rightarrow> 'b MakeCOE \<Rightarrow> (error + ClusterType) \<times> 'b MakeCOE" where
  "lookupClusterTypeByName api pattern s =
     (case getClusterTypeCache api s of
        (Inl err, s') \<Rightarrow> (Inl err, s')
      | (Inr cache, s') \<Rightarrow>
          (case lookupLoop pattern (map snd cache) None of
             Inl err \<Rightarrow> (Inl err, s')
           | Inr None \<Rightarrow> (Inl (ErrorString (''Could not find template named '' @ pattern)), s')
           | Inr (Some clusterType) \<Rightarrow> (Inr clusterType, s')))"

definition CreateCluster ::
  "'b Backend \<Rightarrow> string \<Rightarrow> string \<Rightarrow> int \<Rightarrow> 'b MakeCOE \<Rightarrow> (error + Cluster) \<times> 'b MakeCOE" where
  "CreateCluster api name template nodes s =
     (if template = [] then (Inl (ErrorString ''--template is required''), s)
      else
        (case init api s of
           (Some err, s1) \<Rightarrow> (Inl err, s1)
         | (None, s1) \<Rightarrow>
             (case lookupClusterTypeByName api template s1 of
                (Inl err, s2) \<Rightarrow> (Inl err, s2)
              | (Inr clusterType, s2) \<Rightarrow>
                  (let createOpts = \<lparr>OptName = name, OptClusterTypeID = TypeID clusterType,
                                      OptNodes = nodes\<rparr>
                   in (case send (ReqCreate createOpts) (Create api createOpts) s2 of
                         (Inl err, s3) \<Rightarrow>
                           (Inl (handleLibcarinaError
                              (Wrapped err ''[make-coe] Unable to create cluster'')), s3)
                       | (Inr result, s3) \<Rightarrow> (Inr result, s3))))))"

definition GetClusterCredentials ::
  "'b Backend \<Rightarrow> string \<Rightarrow> 'b MakeCOE \<Rightarrow> (error + CredentialsBundle) \<times> 'b MakeCOE" where
  "GetClusterCredentials api token s =
     (case init api s of
        (Some err, s1) \<Rightarrow> (Inl err, s1)
      | (None, s1) \<Rightarrow>
          (case send (ReqGetCredentials token) (GetCredentials api token) s1 of
             (Inl err, s2) \<Rightarrow>
               (Inl (handleLibcarinaError
                  (Wrapped err ''[make-coe] Unable to retrieve the cluster credentials'')), s2)
           | (Inr creds, s2) \<Rightarrow> (Inr creds, s2)))"

definition ListClusters :: "'b Backend \<Rightarrow> 'b MakeCOE \<Rightarrow> (error + Cluster list) \<times> 'b MakeCOE" where
  "ListClusters api s =
     (case init api s of
        (Some err, s1) \<Rightarrow> (Inl err, s1)
      | (None, s1) \<Rightarrow>
          (case send ReqList (ListAll api) s1 of
             (Inl err, s2) \<Rightarrow>
               (Inl (handleLibcarinaError (Wrapped err ''[make-coe] Unable to list clusters'')), s2)
           | (Inr results, s2) \<Rightarrow> (Inr results, s2)))"

definition ListClusterTemplates ::
  "'b Backend \<Rightarrow> 'b MakeCOE \<Rightarrow> (error + ClusterType list) \<times> 'b MakeCOE" where
  "ListClusterTemplates api s =
     (case init api s of
        (Some err, s1) \<Rightarrow> (Inl err, s1)
      | (None, s1) \<Rightarrow>
          (case listClusterTypes api s1 of
             (Inl err, s2) \<Rightarrow> (Inl err, s2)
           | (Inr results, s2) \<Rightarrow> (Inr results, s2)))"

definition RebuildCluster :: "string \<Rightarrow> 'b MakeCOE \<Rightarrow> (error + Cluster) \<times> 'b MakeCOE" where
  "RebuildCluster token s =
     (Inl (ErrorString ''[make-coe] Rebuilding clusters from the carina cli is not supported yet''), s)"

definition DeleteCluster ::
  "'b Backend \<Rightarrow> string \<Rightarrow> 'b MakeCOE \<Rightarrow> (error + Cluster) \<times> 'b MakeCOE" where
  "DeleteCluster api token s =
     (case init api s of
        (Some err, s1) \<Rightarrow> (Inl err, s1)
      | (None, s1) \<Rightarrow>
          (case send (ReqDelete token) (Delete api token) s1 of
             (Inl err, s2) \<Rightarrow>
               (let cause = Cause err;
                    failed = (Inl (handleLibcarinaError
                                (Wrapped cause (''[make-coe] Unable to delete cluster ('' @ token @ '')''))), s2)
                in (case cause of
                      HTTPErr code \<Rightarrow>
                        if code = StatusNotFound then (Inr (newCluster\<lparr>Status := ''deleted''\<rparr>), s2)
                        else failed
                    | _ \<Rightarrow> failed))
           | (Inr result, s2) \<Rightarrow> (Inr result, s2)))"

definition GrowCluster :: "string \<Rightarrow> int \<Rightarrow> 'b MakeCOE \<Rightarrow> (error + Cluster) \<times> 'b MakeCOE" where
  "GrowCluster token nodes s =
     (Inl (ErrorString ''[make-coe] Grow command not supported. Please use 'resize'.''), s)"

definition ResizeCluster ::
  "'b Backend \<Rightarrow> string \<Rightarrow> int \<Rightarrow> 'b MakeCOE \<Rightarrow> (error + Cluster) \<times> 'b MakeCOE" where
  "ResizeCluster api token nodes s =
     (case init api s of
        (Some err, s1) \<Rightarrow> (Inl err, s1)
      | (None, s1) \<Rightarrow>
          (case send (ReqResize token nodes) (Resize api token nodes) s1 of
             (Inl err, s2) \<Rightarrow>
               (Inl (handleLibcarinaError
                  (Wrapped err (''[make-coe] Unable to resize cluster ('' @ token @ '')''))), s2)
           | (Inr result, s2) \<Rightarrow> (Inr result, s2)))"

definition SetAutoScale :: "string \<Rightarrow> bool \<Rightarrow> 'b MakeCOE \<Rightarrow> (error + Cluster) \<times> 'b MakeCOE" where
  "SetAutoScale token v s = (Inl (ErrorString ''make-coe does not support autoscaling''), s)"

subsection \<open>Waiting for a cluster\<close>

definition isDoneActive :: "Cluster \<Rightarrow> bool" where
  "isDoneActive cluster =
     (let status = ToLower (GetStatus cluster) in status = ''active'' \<or> status = ''error'')"

text \<open>
  The polling loop of \<open>WaitUntilClusterIsActive\<close>.  The loop has no bound, so the
  result is an option: \<open>None\<close> when it never returns.  Every round fetches by the id of
  the cluster that was passed in: the \<open>cluster\<close> assigned in the loop body is a variable
  of the body.
\<close>

partial_function (option) activeLoop ::
  "'b Backend \<Rightarrow> string \<Rightarrow> 'b MakeCOE \<Rightarrow> ((error + Cluster) \<times> 'b MakeCOE) option" where
  "activeLoop api token s =
     (case GetCluster api token s of
        (Inl err, s') \<Rightarrow> Some (Inl err, s')
      | (Inr cluster, s') \<Rightarrow>
          if isDoneActive cluster then Some (Inr cluster, s') else activeLoop api token s')"

definition WaitUntilClusterIsActive ::
  "'b Backend \<Rightarrow> Cluster \<Rightarrow> 'b MakeCOE \<Rightarrow> ((error + Cluster) \<times> 'b MakeCOE) option" where
  "WaitUntilClusterIsActive api cluster s =
     (if isDoneActive cluster then Some (Inr cluster, s)
      else activeLoop api (GetID cluster) s)"

definition deletionError :: error where
  "deletionError = ErrorString ''Unable to delete cluster, an error occured while deleting.''"

definition isDoneDeleted :: "Cluster \<Rightarrow> bool \<times> error option" where
  "isDoneDeleted cluster =
     (let status = ToLower (GetStatus cluster)
      in if status = ''error'' then (True, Some deletionError)
         else (status = ''deleted'', None))"

text \<open>
  The polling loop of \<open>WaitUntilClusterIsDeleted\<close>, with the same conventions: \<open>None\<close>
  when the loop never returns, otherwise the error returned (\<open>None\<close> inside for nil).
\<close>

partial_function (option) deletedLoop ::
  "'b Backend \<Rightarrow> string \<Rightarrow> 'b MakeCOE \<Rightarrow> (error option \<times> 'b MakeCOE) option" where
  "deletedLoop api token s =
     (case GetCluster api token s of
        (Inl err, s') \<Rightarrow>
          (case Cause err of
             HTTPErr code \<Rightarrow>
               if code = StatusNotFound then Some (None, s') else Some (Some err, s')
           | _ \<Rightarrow> Some (Some err, s'))
      | (Inr cluster, s') \<Rightarrow>
          (case isDoneDeleted cluster of
             (done, err) \<Rightarrow> if done then Some (err, s') else deletedLoop api token s'))"

definition WaitUntilClusterIsDeleted ::
  "'b Backend \<Rightarrow> Cluster \<Rightarrow> 'b MakeCOE \<Rightarrow> (error option \<times> 'b MakeCOE) option" where
  "WaitUntilClusterIsDeleted api cluster s =
     (case isDoneDeleted cluster of
        (done, err) \<Rightarrow> if done then Some (err, s) else deletedLoop api (GetID cluster) s)"

section \<open>The client\<close>

subsection \<open>The collaborators of the client\<close>

text \<open>
  The packages \<open>os\<close>, \<open>path/filepath\<close> and \<open>io/ioutil\<close> as the client uses them, over
  the state \<open>'f\<close> of the disk: \<open>Clean\<close> and \<open>Join\<close> compute paths, \<open>Stat\<close> reads the
  disk and yields the error of \<open>os.Stat\<close> (\<open>None\<close> for nil), the others change the disk.
\<close>

record 'f OS =
  Clean :: "string \<Rightarrow> string"
  Join :: "string \<Rightarrow> string \<Rightarrow> string"
  Stat :: "string \<Rightarrow> 'f \<Rightarrow> error option"
  MkdirAll :: "string \<Rightarrow> 'f \<Rightarrow> error option \<times> 'f"
  WriteFile :: "string \<Rightarrow> string \<Rightarrow> 'f \<Rightarrow> error option \<times> 'f"
  RemoveAll :: "string \<Rightarrow> 'f \<Rightarrow> error option \<times> 'f"

text \<open>
  \<open>os.IsNotExist\<close>: false for nil; otherwise the error under a \<open>PathError\<close> is compared
  with \<open>ErrNotExist\<close> and with the errno \<open>ENOENT\<close> (2).
\<close>

fun underlyingError :: "error \<Rightarrow> error" where
  "underlyingError (PathError op path err) = err"
| "underlyingError err = err"

definition IsNotExist :: "error option \<Rightarrow> bool" where
  "IsNotExist err =
     (case err of
        None \<Rightarrow> False
      | Some e \<Rightarrow> underlyingError e = ErrNotExist \<or> underlyingError e = Errno 2)"

text \<open>
  The functions of the client package and of \<open>libcarina\<close> that the client calls and that
  are not among the sources, for accounts of type \<open>'a\<close>: \<open>buildClusterCredentialsPath\<close>
  yields a path and an error; \<open>verifyCredentials path\<close> is
  \<open>libcarina.LoadCredentialsBundle(path).Verify()\<close>; \<open>getCredentialScriptPath\<close> and
  \<open>sourceHelpString\<close> produce the text of the source command.
\<close>

record ('a, 'f) Package =
  buildClusterCredentialsPath :: "'a \<Rightarrow> string \<Rightarrow> string \<Rightarrow> string \<times> error option"
  verifyCredentials :: "string \<Rightarrow> 'f \<Rightarrow> error option"
  getCredentialScriptPath :: "string \<Rightarrow> string \<Rightarrow> 'f \<Rightarrow> string \<times> error option"
  sourceHelpString :: "string \<Rightarrow> string \<Rightarrow> string \<Rightarrow> string"

text \<open>
  The interface \<open>common.ClusterService\<close> over the state \<open>'s\<close> of a service and of the
  backend behind it.  \<open>NewClusterService\<close> is the method of the account that makes the
  service: it replaces the instance and keeps the backend.  The two waits may never
  return, so their result is an option.
\<close>

record ('a, 's) ClusterService =
  NewClusterService :: "'a \<Rightarrow> 's \<Rightarrow> 's"
  svcGetQuotas :: "'s \<Rightarrow> (error + Quotas) \<times> 's"
  svcCreateCluster :: "string \<Rightarrow> string \<Rightarrow> int \<Rightarrow> 's \<Rightarrow> (error + Cluster) \<times> 's"
  svcGetCluster :: "string \<Rightarrow> 's \<Rightarrow> (error + Cluster) \<times> 's"
  svcListClusters :: "'s \<Rightarrow> (error + Cluster list) \<times> 's"
  svcListClusterTemplates :: "'s \<Rightarrow> (error + ClusterType list) \<times> 's"
  svcResizeCluster :: "string \<Rightarrow> int \<Rightarrow> 's \<Rightarrow> (error + Cluster) \<times> 's"
  svcGrowCluster :: "string \<Rightarrow> int \<Rightarrow> 's \<Rightarrow> (error + Cluster) \<times> 's"
  svcSetAutoScale :: "string \<Rightarrow> bool \<Rightarrow> 's \<Rightarrow> (error + Cluster) \<times> 's"
  svcDeleteCluster :: "string \<Rightarrow> 's \<Rightarrow> (error + Cluster) \<times> 's"
  svcRebuildCluster :: "string \<Rightarrow> 's \<Rightarrow> (error + Cluster) \<times> 's"
  svcGetClusterCredentials :: "string \<Rightarrow> 's \<Rightarrow> (error + CredentialsBundle) \<times> 's"
  svcWaitUntilClusterIsActive :: "Cluster \<Rightarrow> 's \<Rightarrow> ((error + Cluster) \<times> 's) option"
  svcWaitUntilClusterIsDeleted :: "Cluster \<Rightarrow> 's \<Rightarrow> (error option \<times> 's) option"

text \<open>
  Modelled from the spec: \<open>NewClusterService\<close> of a make-coe account and the accessor
  \<open>GetName\<close> of a template are declared in files of the make-coe package that are not
  among the sources.  By the spec a service authenticates on first use, not at
  construction, and keeps its template cache for its own lifetime, so the new instance
  has no client and no cache; a template is a cluster type and its name is the name of
  that type.
\<close>

definition newMakeCOE :: "'a \<Rightarrow> 'b MakeCOE \<Rightarrow> 'b MakeCOE" where
  "newMakeCOE account s = s\<lparr>client := False, clusterTypeCache := None\<rparr>"

definition GetTemplateName :: "ClusterType \<Rightarrow> string" where
  "GetTemplateName template = TypeName template"

text \<open>The make-coe adapter as a cluster service.\<close>

definition MakeCOEService :: "'b Backend \<Rightarrow> ('a, 'b MakeCOE) ClusterService" where
  "MakeCOEService api =
     \<lparr>NewClusterService = newMakeCOE,
      svcGetQuotas = GetQuotas,
      svcCreateCluster = CreateCluster api,
      svcGetCluster = GetCluster api,
      svcListClusters = ListClusters api,
      svcListClusterTemplates = ListClusterTemplates api,
      svcResizeCluster = ResizeCluster api,
      svcGrowCluster = GrowCluster,
      svcSetAutoScale = SetAutoScale,
      svcDeleteCluster = DeleteCluster api,
      svcRebuildCluster = RebuildCluster,
      svcGetClusterCredentials = GetClusterCredentials api,
      svcWaitUntilClusterIsActive = WaitUntilClusterIsActive api,
      svcWaitUntilClusterIsDeleted = WaitUntilClusterIsDeleted api\<rparr>"

subsection \<open>The state of the client\<close>

text \<open>
  The cache of the client is not among the sources: the model keeps the calls made to it,
  \<open>Cache.apply\<close> and \<open>Cache.SaveAccount\<close>, in the order they were made.  The world of a
  client operation is the service with its backend, the disk and these calls.
\<close>

datatype 'a CacheCall = CacheApply 'a | CacheSaveAccount 'a

record ('a, 's, 'f) World =
  service :: 's
  disk :: 'f
  cacheCalls :: "'a CacheCall list"

definition applyCache :: "'a \<Rightarrow> ('a, 's, 'f) World \<Rightarrow> ('a, 's, 'f) World" where
  "applyCache account w = w\<lparr>cacheCalls := cacheCalls w @ [CacheApply account]\<rparr>"

definition SaveAccount :: "'a \<Rightarrow> ('a, 's, 'f) World \<Rightarrow> ('a, 's, 'f) World" where
  "SaveAccount account w = w\<lparr>cacheCalls := cacheCalls w @ [CacheSaveAccount account]\<rparr>"

text \<open>
  \<open>defer client.Cache.SaveAccount(account)\<close>: the call runs when the operation returns,
  whatever it returns.
\<close>

definition deferSaveAccount ::
  "'a \<Rightarrow> 'r \<times> ('a, 's, 'f) World \<Rightarrow> 'r \<times> ('a, 's, 'f) World" where
  "deferSaveAccount account rw = (fst rw, SaveAccount account (snd rw))"

text \<open>A call of the service, and a call of the service that may not return.\<close>

definition onService ::
  "('s \<Rightarrow> 'r \<times> 's) \<Rightarrow> ('a, 's, 'f) World \<Rightarrow> 'r \<times> ('a, 's, 'f) World" where
  "onService call w = (case call (service w) of (r, s') \<Rightarrow> (r, w\<lparr>service := s'\<rparr>))"

definition onServiceWait ::
  "('s \<Rightarrow> ('r \<times> 's) option) \<Rightarrow> ('a, 's, 'f) World \<Rightarrow> ('r \<times> ('a, 's, 'f) World) option" where
  "onServiceWait call w =
     (case call (service w) of
        None \<Rightarrow> None
      | Some (r, s') \<Rightarrow> Some (r, w\<lparr>service := s'\<rparr>))"

subsection \<open>Errors of the client\<close>

text \<open>
  Modelled from the spec: \<open>newClientError\<close> is declared in a file of the client package
  that is not among the sources; it translates an error into the client's error taxonomy
  and is kept as a constructor around the error.
\<close>

definition newClientError :: "error \<Rightarrow> error" where
  "newClientError err = ClientError err"

definition wrapClientError :: "error option \<Rightarrow> error option" where
  "wrapClientError err = (case err of None \<Rightarrow> None | Some e \<Rightarrow> Some (newClientError e))"

text \<open>\<open>return x, wrapClientError(err)\<close> on a result that is a value or an error.\<close>

definition wrapResult :: "error + 'r \<Rightarrow> error + 'r" where
  "wrapResult r = (case r of Inl err \<Rightarrow> Inl (newClientError err) | Inr x \<Rightarrow> Inr x)"

subsection \<open>Operations of the client\<close>

definition buildContainerService ::
  "('a, 's) ClusterService \<Rightarrow> 'a \<Rightarrow> ('a, 's, 'f) World \<Rightarrow> error option \<times> ('a, 's, 'f) World" where
  "buildContainerService svc account w =
     (None, (applyCache account w)\<lparr>service := NewClusterService svc account (service w)\<rparr>)"

text \<open>
  \<open>if waitUntilActive && err == nil { cluster, err = svc.WaitUntilClusterIsActive(cluster) }\<close>,
  the step shared by the operations that can wait.
\<close>

definition thenWaitUntilActive ::
  "('a, 's) ClusterService \<Rightarrow> bool \<Rightarrow> (error + Cluster) \<times> ('a, 's, 'f) World \<Rightarrow>
     ((error + Cluster) \<times> ('a, 's, 'f) World) option" where
  "thenWaitUntilActive svc waitUntilActive rw =
     (case rw of
        (Inr cluster, w) \<Rightarrow>
          if waitUntilActive then onServiceWait (svcWaitUntilClusterIsActive svc cluster) w
          else Some (Inr cluster, w)
      | (Inl err, w) \<Rightarrow> Some (Inl err, w))"

definition returnWrapped ::
  "((error + 'r) \<times> ('a, 's, 'f) World) option \<Rightarrow> ((error + 'r) \<times> ('a, 's, 'f) World) option" where
  "returnWrapped res = (case res of None \<Rightarrow> None | Some (r, w) \<Rightarrow> Some (wrapResult r, w))"

definition ClientGetQuotas ::
  "('a, 's) ClusterService \<Rightarrow> 'a \<Rightarrow> ('a, 's, 'f) World \<Rightarrow> (error + Quotas) \<times> ('a, 's, 'f) World" where
  "ClientGetQuotas svc account w =
     deferSaveAccount account
       (case buildContainerService svc account w of
          (Some err, w1) \<Rightarrow> (Inl err, w1)
        | (None, w1) \<Rightarrow>
            (case onService (svcGetQuotas svc) w1 of (r, w2) \<Rightarrow> (wrapResult r, w2)))"

definition ClientCreateCluster ::
  "('a, 's) ClusterService \<Rightarrow> 'a \<Rightarrow> string \<Rightarrow> string \<Rightarrow> int \<Rightarrow> bool \<Rightarrow> ('a, 's, 'f) World \<Rightarrow>
     ((error + Cluster) \<times> ('a, 's, 'f) World) option" where
  "ClientCreateCluster svc account name template nodes waitUntilActive w =
     map_option (deferSaveAccount account)
       (case buildContainerService svc account w of
          (Some err, w1) \<Rightarrow> Some (Inl err, w1)
        | (None, w1) \<Rightarrow>
            returnWrapped (thenWaitUntilActive svc waitUntilActive
              (onService (svcCreateCluster svc name template nodes) w1)))"

fun writeFiles :: "'f OS \<Rightarrow> string \<Rightarrow> CredentialsBundle \<Rightarrow> 'f \<Rightarrow> error option \<times> 'f" where
  "writeFiles os credentialsPath [] d = (None, d)"
| "writeFiles os credentialsPath ((file, fileContents) # rest) d =
     (case WriteFile os (Join os credentialsPath file) fileContents d of
        (Some err, d') \<Rightarrow> (Some err, d')
      | (None, d') \<Rightarrow> writeFiles os credentialsPath rest d')"

definition ClientDownloadClusterCredentials ::
  "('a, 's) ClusterService \<Rightarrow> 'f OS \<Rightarrow> ('a, 'f) Package \<Rightarrow> 'a \<Rightarrow> string \<Rightarrow> string \<Rightarrow>
     ('a, 's, 'f) World \<Rightarrow> (error + string) \<times> ('a, 's, 'f) World" where
  "ClientDownloadClusterCredentials svc os pk account name customPath w =
     deferSaveAccount account
       (case buildContainerService svc account w of
          (Some err, w1) \<Rightarrow> (Inl err, w1)
        | (None, w1) \<Rightarrow>
            (case onService (svcGetClusterCredentials svc name) w1 of
               (Inl err, w2) \<Rightarrow> (Inl (newClientError err), w2)
             | (Inr creds, w2) \<Rightarrow>
                 (case buildClusterCredentialsPath pk account name customPath of
                    (p, Some err) \<Rightarrow>
                      (Inl (Wrapped err ''Unable to save downloaded cluster credentials''), w2)
                  | (credentialsPath, None) \<Rightarrow>
                      (case (if credentialsPath \<noteq> ''.'' then MkdirAll os credentialsPath (disk w2)
                             else (None, disk w2)) of
                         (Some err, d3) \<Rightarrow> (Inl err, w2\<lparr>disk := d3\<rparr>)
                       | (None, d3) \<Rightarrow>
                           (case writeFiles os credentialsPath creds d3 of
                              (Some err, d4) \<Rightarrow> (Inl err, w2\<lparr>disk := d4\<rparr>)
                            | (None, d4) \<Rightarrow> (Inr credentialsPath, w2\<lparr>disk := d4\<rparr>))))))"

definition ClientGetSourceCommand ::
  "('a, 's) ClusterService \<Rightarrow> 'f OS \<Rightarrow> ('a, 'f) Package \<Rightarrow> 'a \<Rightarrow> string \<Rightarrow> string \<Rightarrow> string \<Rightarrow>
     ('a, 's, 'f) World \<Rightarrow> (error + string) \<times> ('a, 's, 'f) World" where
  "ClientGetSourceCommand svc os pk account shell name customPath w =
     (case buildClusterCredentialsPath pk account name customPath of
        (credentialsPath, ignored) \<Rightarrow>
          (case (case verifyCredentials pk credentialsPath (disk w) of
                   Some err \<Rightarrow> ClientDownloadClusterCredentials svc os pk account name customPath w
                 | None \<Rightarrow> (Inr credentialsPath, w)) of
             (Inl err, w1) \<Rightarrow> (Inl err, w1)
           | (Inr credentialsPath, w1) \<Rightarrow>
               (case getCredentialScriptPath pk credentialsPath shell (disk w1) of
                  (p, Some err) \<Rightarrow> (Inl err, w1)
                | (shellScriptPath, None) \<Rightarrow>
                    (Inr (sourceHelpString pk shellScriptPath name shell), w1))))"

definition ClientListClusters ::
  "('a, 's) ClusterService \<Rightarrow> 'a \<Rightarrow> ('a, 's, 'f) World \<Rightarrow>
     (error + Cluster list) \<times> ('a, 's, 'f) World" where
  "ClientListClusters svc account w =
     deferSaveAccount account
       (case buildContainerService svc account w of
          (Some err, w1) \<Rightarrow> (Inl err, w1)
        | (None, w1) \<Rightarrow>
            (case onService (svcListClusters svc) w1 of (r, w2) \<Rightarrow> (wrapResult r, w2)))"

definition ClientListClusterTemplates ::
  "('a, 's) ClusterService \<Rightarrow> 'a \<Rightarrow> string \<Rightarrow> ('a, 's, 'f) World \<Rightarrow>
     (error + ClusterType list) \<times> ('a, 's, 'f) World" where
  "ClientListClusterTemplates svc account nameFilter w =
     deferSaveAccount account
       (case buildContainerService svc account w of
          (Some err, w1) \<Rightarrow> (Inl err, w1)
        | (None, w1) \<Rightarrow>
            (case onService (svcListClusterTemplates svc) w1 of
               (Inr templates, w2) \<Rightarrow>
                 if nameFilter \<noteq> [] then
                   (wrapResult
                      (Inr (filter (\<lambda>template. Glob nameFilter (GetTemplateName template)) templates)),
                    w2)
                 else (wrapResult (Inr templates), w2)
             | (Inl err, w2) \<Rightarrow> (wrapResult (Inl err), w2)))"

definition ClientGetCluster ::
  "('a, 's) ClusterService \<Rightarrow> 'a \<Rightarrow> string \<Rightarrow> bool \<Rightarrow> ('a, 's, 'f) World \<Rightarrow>
     ((error + Cluster) \<times> ('a, 's, 'f) World) option" where
  "ClientGetCluster svc account name waitUntilActive w =
     map_option (deferSaveAccount account)
       (case buildContainerService svc account w of
          (Some err, w1) \<Rightarrow> Some (Inl err, w1)
        | (None, w1) \<Rightarrow>
            returnWrapped (thenWaitUntilActive svc waitUntilActive
              (onService (svcGetCluster svc name) w1)))"

definition ClientGrowCluster ::
  "('a, 's) ClusterService \<Rightarrow> 'a \<Rightarrow> string \<Rightarrow> int \<Rightarrow> bool \<Rightarrow> ('a, 's, 'f) World \<Rightarrow>
     ((error + Cluster) \<times> ('a, 's, 'f) World) option" where
  "ClientGrowCluster svc account name nodes waitUntilActive w =
     map_option (deferSaveAccount account)
       (case buildContainerService svc account w of
          (Some err, w1) \<Rightarrow> Some (Inl err, w1)
        | (None, w1) \<Rightarrow>
            returnWrapped (thenWaitUntilActive svc waitUntilActive
              (onService (svcGrowCluster svc name nodes) w1)))"

definition ClientResizeCluster ::
  "('a, 's) ClusterService \<Rightarrow> 'a \<Rightarrow> string \<Rightarrow> int \<Rightarrow> bool \<Rightarrow> ('a, 's, 'f) World \<Rightarrow>
     ((error + Cluster) \<times> ('a, 's, 'f) World) option" where
  "ClientResizeCluster svc account name nodes waitUntilActive w =
     map_option (deferSaveAccount account)
       (case buildContainerService svc account w of
          (Some err, w1) \<Rightarrow> Some (Inl err, w1)
        | (None, w1) \<Rightarrow>
            returnWrapped (thenWaitUntilActive svc waitUntilActive
              (onService (svcResizeCluster svc name nodes) w1)))"

definition ClientRebuildCluster ::
  "('a, 's) ClusterService \<Rightarrow> 'a \<Rightarrow> string \<Rightarrow> bool \<Rightarrow> ('a, 's, 'f) World \<Rightarrow>
     ((error + Cluster) \<times> ('a, 's, 'f) World) option" where
  "ClientRebuildCluster svc account name waitUntilActive w =
     map_option (deferSaveAccount account)
       (case buildContainerService svc account w of
          (Some err, w1) \<Rightarrow> Some (Inl err, w1)
        | (None, w1) \<Rightarrow>
            returnWrapped (thenWaitUntilActive svc waitUntilActive
              (onService (svcRebuildCluster svc name) w1)))"

definition ClientSetAutoScale ::
  "('a, 's) ClusterService \<Rightarrow> 'a \<Rightarrow> string \<Rightarrow> bool \<Rightarrow> ('a, 's, 'f) World \<Rightarrow>
     (error + Cluster) \<times> ('a, 's, 'f) World" where
  "ClientSetAutoScale svc account name v w =
     deferSaveAccount account
       (case buildContainerService svc account w of
          (Some err, w1) \<Rightarrow> (Inl err, w1)
        | (None, w1) \<Rightarrow>
            (case onService (svcSetAutoScale svc name v) w1 of (r, w2) \<Rightarrow> (wrapResult r, w2)))"

definition ClientDeleteClusterCredentials ::
  "'f OS \<Rightarrow> ('a, 'f) Package \<Rightarrow> 'a \<Rightarrow> string \<Rightarrow> string \<Rightarrow> ('a, 's, 'f) World \<Rightarrow>
     error option \<times> ('a, 's, 'f) World" where
  "ClientDeleteClusterCredentials os pk account name customPath w =
     (case buildClusterCredentialsPath pk account name customPath of
        (built, Some err) \<Rightarrow> (Some err, w)
      | (built, None) \<Rightarrow>
          (let p = Clean os built in
           if p = [] \<or> p = ''.'' \<or> p = ''/'' then
             (Some (ErrorString
                ''Path to cluster is empty, the current directory, or a root path, not deleting''), w)
           else if IsNotExist (Stat os p (disk w)) then (None, w)
           else if IsNotExist (Stat os (Join os p ''ca.pem'') (disk w)) then
             (Some (ErrorString
                ''Path to cluster credentials exists but not the ca.pem, not deleting''), w)
           else
             (case RemoveAll os p (disk w) of
                (Some err, d') \<Rightarrow>
                  (Some (Wrapped err ''Unable to delete the credentials on disk''), w\<lparr>disk := d'\<rparr>)
              | (None, d') \<Rightarrow> (None, w\<lparr>disk := d'\<rparr>))))"

definition ClientDeleteCluster ::
  "('a, 's) ClusterService \<Rightarrow> 'f OS \<Rightarrow> ('a, 'f) Package \<Rightarrow> 'a \<Rightarrow> string \<Rightarrow> bool \<Rightarrow>
     ('a, 's, 'f) World \<Rightarrow> (error option \<times> ('a, 's, 'f) World) option" where
  "ClientDeleteCluster svc os pk account name waitUntilDeleted w =
     map_option (deferSaveAccount account)
       (case buildContainerService svc account w of
          (Some err, w1) \<Rightarrow> Some (Some err, w1)
        | (None, w1) \<Rightarrow>
            (case (case onService (svcDeleteCluster svc name) w1 of
                     (Inr cluster, w2) \<Rightarrow>
                       if waitUntilDeleted then
                         onServiceWait (svcWaitUntilClusterIsDeleted svc cluster) w2
                       else Some (None, w2)
                   | (Inl err, w2) \<Rightarrow> Some (Some err, w2)) of
               None \<Rightarrow> None
             | Some (None, w3) \<Rightarrow>
                 (case ClientDeleteClusterCredentials os pk account name [] w3 of
                    (err, w4) \<Rightarrow> Some (wrapClientError err, w4))
             | Some (Some err, w3) \<Rightarrow> Some (wrapClientError (Some err), w3)))"

section \<open>Notions used to state the properties\<close>

text \<open>
  \<open>afterPending done api token n s\<close> is the state of the adapter after \<open>n\<close> rounds of a
  polling loop that each fetched the cluster and found it not done; it is \<open>None\<close> when
  one of these \<open>n\<close> fetches failed or found the cluster done.
\<close>

fun afterPending :: "(Cluster \<Rightarrow> bool) \<Rightarrow> 'b Backend \<Rightarrow> string \<Rightarrow> nat \<Rightarrow> 'b MakeCOE \<Rightarrow> 'b MakeCOE option" where
  "afterPending done api token 0 s = Some s"
| "afterPending done api token (Suc n) s =
     (case GetCluster api token s of
        (Inl err, s') \<Rightarrow> None
      | (Inr cluster, s') \<Rightarrow> if done cluster then None else afterPending done api token n s')"

text \<open>The number of \<open>Get\<close> calls among the requests sent so far.\<close>

fun isFetch :: "request \<Rightarrow> bool" where
  "isFetch (ReqGet token) = True"
| "isFetch rq = False"

definition fetches :: "'b MakeCOE \<Rightarrow> nat" where
  "fetches s = length (filter isFetch (requests s))"

section \<open>A scripted backend for the worked examples\<close>

text \<open>
  The backend of the examples holds a list of answers and a list of templates.  It answers
  \<open>Create\<close>, \<open>Get\<close>, \<open>Delete\<close> and \<open>Resize\<close> with the next answer of the list, lists
  its templates, and accepts every authentication.
\<close>

record Remote =
  answers :: "(error + Cluster) list"
  types :: "ClusterType list"

definition nextAnswer :: "Remote \<Rightarrow> (error + Cluster) \<times> Remote" where
  "nextAnswer b =
     (case answers b of
        [] \<Rightarrow> (Inl (ErrorString ''no answer''), b)
      | r # rs \<Rightarrow> (r, b\<lparr>answers := rs\<rparr>))"

definition scripted :: "Remote Backend" where
  "scripted =
     \<lparr>Authenticate = (\<lambda>b. (None, b)),
      Create = (\<lambda>opts. nextAnswer),
      Get = (\<lambda>token. nextAnswer),
      ListAll = (\<lambda>b. (Inr [], b)),
      ListClusterTypes = (\<lambda>b. (Inr (types b), b)),
      Delete = (\<lambda>token. nextAnswer),
      Resize = (\<lambda>token nodes. nextAnswer),
      GetCredentials = (\<lambda>token b. (Inr [], b))\<rparr>"

definition web :: "string \<Rightarrow> Cluster" where
  "web status = \<lparr>ID = ''c1'', Name = ''web'', Status = status, Nodes = 1\<rparr>"

definition connected :: "(error + Cluster) list \<Rightarrow> request list \<Rightarrow> Remote MakeCOE" where
  "connected as rqs =
     \<lparr>client = True, clusterTypeCache = None,
      backend = \<lparr>answers = as, types = []\<rparr>, requests = rqs\<rparr>"

definition disconnected :: "(error + Cluster) list \<Rightarrow> request list \<Rightarrow> Remote MakeCOE" where
  "disconnected as rqs =
     \<lparr>client = False, clusterTypeCache = None,
      backend = \<lparr>answers = as, types = []\<rparr>, requests = rqs\<rparr>"

definition template :: "int \<Rightarrow> string \<Rightarrow> ClusterType" where
  "template i n = \<lparr>TypeID = i, TypeName = n, COE = ''kubernetes'', HostType = ''lxc''\<rparr>"

definition catalog :: "ClusterType list" where
  "catalog = [template 1 ''Kubernetes-Small'', template 2 ''Kubernetes-Large'', template 3 ''Swarm-Small'']"

definition withCatalog :: "bool \<Rightarrow> request list \<Rightarrow> Remote MakeCOE" where
  "withCatalog authenticated rqs =
     \<lparr>client = authenticated, clusterTypeCache = None,
      backend = \<lparr>answers = [], types = catalog\<rparr>, requests = rqs\<rparr>"

section \<open>A disk and a package for the worked examples\<close>

text \<open>
  The disk of the examples is the list of the paths that exist.  \<open>lexicalClean\<close> is the
  lexical normalisation of a slash-separated path: empty and \<open>.\<close> elements are dropped,
  \<open>..\<close> removes the element before it (or is dropped at the root), and the empty result
  is \<open>.\<close>.
\<close>

fun splitSlash :: "string \<Rightarrow> string \<Rightarrow> string list" where
  "splitSlash cur [] = [cur]"
| "splitSlash cur (c # cs) =
     (if c = CHR ''/'' then cur # splitSlash [] cs else splitSlash (cur @ [c]) cs)"

fun cleanElems :: "bool \<Rightarrow> string list \<Rightarrow> string list \<Rightarrow> string list" where
  "cleanElems rooted out [] = out"
| "cleanElems rooted out (e # es) =
     (if e = [] \<or> e = ''.'' then cleanElems rooted out es
      else if e = ''..'' then
        (if out \<noteq> [] \<and> last out \<noteq> ''..'' then cleanElems rooted (butlast out) es
         else if rooted then cleanElems rooted out es
         else cleanElems rooted (out @ [''..'']) es)
      else cleanElems rooted (out @ [e]) es)"

fun joinSlash :: "string list \<Rightarrow> string" where
  "joinSlash [] = []"
| "joinSlash [e] = e"
| "joinSlash (e # es) = e @ ''/'' @ joinSlash es"

definition lexicalClean :: "string \<Rightarrow> string" where
  "lexicalClean path =
     (case path of
        [] \<Rightarrow> ''.''
      | c # cs \<Rightarrow>
          (let rooted = (c = CHR ''/'');
               out = joinSlash (cleanElems rooted [] (splitSlash [] path))
           in if rooted then ''/'' @ out else if out = [] then ''.'' else out))"

definition lexicalJoin :: "string \<Rightarrow> string \<Rightarrow> string" where
  "lexicalJoin a b =
     (if a = [] \<and> b = [] then []
      else if a = [] then lexicalClean b
      else if b = [] then lexicalClean a
      else lexicalClean (a @ ''/'' @ b))"

definition under :: "string \<Rightarrow> string \<Rightarrow> bool" where
  "under p q = (q = p \<or> take (length p + 1) q = p @ ''/'')"

definition exampleOS :: "string list OS" where
  "exampleOS =
     \<lparr>Clean = lexicalClean,
      Join = lexicalJoin,
      Stat = (\<lambda>p d. if p \<in> set d then None else Some (PathError ''stat'' p (Errno 2))),
      MkdirAll = (\<lambda>p d. (None, if p \<in> set d then d else d @ [p])),
      WriteFile = (\<lambda>p contents d. (None, if p \<in> set d then d else d @ [p])),
      RemoveAll = (\<lambda>p d. (None, filter (\<lambda>q. \<not> under p q) d))\<rparr>"

text \<open>
  Modelled from the spec: the functions of \<open>Package\<close> are not among the sources.  For the
  examples, the path of a cluster's credentials is the override directory if supplied,
  else a subdirectory of the account's credential root keyed by cluster name; a bundle
  is valid iff its path exists and contains the CA certificate \<open>ca.pem\<close>.
\<close>

definition examplePackage :: "(string, string list) Package" where
  "examplePackage =
     \<lparr>buildClusterCredentialsPath =
        (\<lambda>account name customPath.
           if customPath \<noteq> [] then (customPath, None)
           else (''/home/user/.carina/clusters/'' @ account @ ''/'' @ name, None)),
      verifyCredentials =
        (\<lambda>path d. if path \<in> set d \<and> lexicalJoin path ''ca.pem'' \<in> set d then None
                   else Some (ErrorString ''invalid credentials bundle'')),
      getCredentialScriptPath = (\<lambda>path shell d. (lexicalJoin path ''docker.env'', None)),
      sourceHelpString = (\<lambda>path name shell. ''source '' @ path)\<rparr>"

definition exampleWorld ::
  "Remote MakeCOE \<Rightarrow> string list \<Rightarrow> (string, Remote MakeCOE, string list) World" where
  "exampleWorld s d = \<lparr>service = s, disk = d, cacheCalls = []\<rparr>"

section \<open>Properties\<close>

subsection \<open>Helper lemmas\<close>

lemma activeLoop_pending:
  "afterPending isDoneActive api token n s = Some s1 \<Longrightarrow> activeLoop api token s = activeLoop api token s1"
proof (induction n arbitrary: s)
  case 0
  then show ?case by simp
next
  case (Suc n)
  then show ?case
    by (subst activeLoop.simps) (auto split: prod.splits sum.splits if_splits)
qed

lemma activeLoop_done:
  "GetCluster api token s = (Inr c, s') \<Longrightarrow> isDoneActive c \<Longrightarrow> activeLoop api token s = Some (Inr c, s')"
  by (subst activeLoop.simps) simp

lemma activeLoop_failed:
  "GetCluster api token s = (Inl err, s') \<Longrightarrow> activeLoop api token s = Some (Inl err, s')"
  by (subst activeLoop.simps) simp

lemma activeLoop_returns:
  "activeLoop api token s = Some y \<Longrightarrow>
     \<exists>n s1. afterPending isDoneActive api token n s = Some s1 \<and>
       ((\<exists>c. GetCluster api token s1 = (Inr c, snd y) \<and> isDoneActive c \<and> fst y = Inr c) \<or>
        (\<exists>err. GetCluster api token s1 = (Inl err, snd y) \<and> fst y = Inl err))"
proof (induction api token s y rule: activeLoop.raw_induct[rotated 1, consumes 1, case_names step])
  case (step loop api token s y)
  note 1 = step
  obtain r s' where g: "GetCluster api token s = (r, s')" by (cases "GetCluster api token s")
  show ?case
  proof (cases r)
    case (Inl err)
    with 1(2) g have "y = (Inl err, s')" by simp
    with g Inl have "afterPending isDoneActive api token 0 s = Some s \<and>
        GetCluster api token s = (Inl err, snd y) \<and> fst y = Inl err" by simp
    then show ?thesis by blast
  next
    case (Inr c)
    show ?thesis
    proof (cases "isDoneActive c")
      case True
      with 1(2) g Inr have "y = (Inr c, s')" by simp
      with g Inr True have "afterPending isDoneActive api token 0 s = Some s \<and>
        GetCluster api token s = (Inr c, snd y) \<and> isDoneActive c \<and> fst y = Inr c" by simp
      then show ?thesis by blast
    next
      case False
      with 1(2) g Inr have "loop api token s' = Some y" by simp
      from 1(1)[OF this] obtain n s1 where
        n: "afterPending isDoneActive api token n s' = Some s1" and
        d: "(\<exists>c. GetCluster api token s1 = (Inr c, snd y) \<and> isDoneActive c \<and> fst y = Inr c) \<or>
        (\<exists>err. GetCluster api token s1 = (Inl err, snd y) \<and> fst y = Inl err)" by blast
      from n g Inr False have "afterPending isDoneActive api token (Suc n) s = Some s1" by simp
      with d show ?thesis by blast
    qed
  qed
qed

lemma init_fetches: "init api s = (r, s') \<Longrightarrow> fetches s' = fetches s"
  by (auto simp: init_def send_def fetches_def split: if_splits prod.splits option.splits)

lemma GetCluster_fetches: "GetCluster api token s = (Inr c, s') \<Longrightarrow> fetches s' = Suc (fetches s)"
  by (auto simp: GetCluster_def send_def fetches_def dest!: init_fetches split: prod.splits option.splits sum.splits)
lemma lower_building: "ToLower ''building'' = ''building''"
  by code_simp

lemma building_pending: "GetStatus c = ''building'' \<Longrightarrow> \<not> isDoneActive c"
  by (simp add: isDoneActive_def lower_building)

lemma WaitUntilClusterIsActive_pending:
  "\<not> isDoneActive cluster \<Longrightarrow> afterPending isDoneActive api (GetID cluster) n s = Some s1 \<Longrightarrow>
     WaitUntilClusterIsActive api cluster s = activeLoop api (GetID cluster) s1"
  by (simp add: WaitUntilClusterIsActive_def activeLoop_pending)
lemma scripted_GetCluster:
  "GetCluster scripted token (connected (Inr c # as) rqs) = (Inr c, connected as (rqs @ [ReqGet token]))"
  by (simp add: GetCluster_def init_def send_def scripted_def nextAnswer_def connected_def)
lemma lower_ACTIVE: "ToLower ''ACTIVE'' = ''active''"
  by code_simp
lemma isDoneActive_iff:
  "isDoneActive c \<longleftrightarrow> ToLower (GetStatus c) = ''active'' \<or> ToLower (GetStatus c) = ''error''"
  by (simp add: isDoneActive_def Let_def)
lemma lower_Error: "ToLower ''Error'' = ''error''"
  by code_simp

lemma lower_ERROR: "ToLower ''ERROR'' = ''error''"
  by code_simp

lemma lower_new: "ToLower ''new'' = ''new''"
  by code_simp
lemma deletedLoop_pending:
  "afterPending (\<lambda>c. fst (isDoneDeleted c)) api token n s = Some s1 \<Longrightarrow>
     deletedLoop api token s = deletedLoop api token s1"
proof (induction n arbitrary: s)
  case 0
  then show ?case by simp
next
  case (Suc n)
  then show ?case
    by (subst deletedLoop.simps) (auto split: prod.splits sum.splits if_splits)
qed

lemma deletedLoop_not_found:
  "GetCluster api token s = (Inl err, s') \<Longrightarrow> Cause err = HTTPErr StatusNotFound \<Longrightarrow>
     deletedLoop api token s = Some (None, s')"
  by (subst deletedLoop.simps) simp

lemma deletedLoop_failed:
  "GetCluster api token s = (Inl err, s') \<Longrightarrow> Cause err \<noteq> HTTPErr StatusNotFound \<Longrightarrow>
     deletedLoop api token s = Some (Some err, s')"
  by (subst deletedLoop.simps) (simp split: error.splits)

lemma deletedLoop_error_status:
  "GetCluster api token s = (Inr c, s') \<Longrightarrow> ToLower (GetStatus c) = ''error'' \<Longrightarrow>
     deletedLoop api token s = Some (Some deletionError, s')"
  by (subst deletedLoop.simps) (simp add: isDoneDeleted_def)
lemma scripted_GetCluster_failed:
  "GetCluster scripted token (connected (Inl e # as) rqs) =
     (Inl (handleLibcarinaError (Wrapped e (''[make-coe] Unable to retrieve cluster ('' @ token @ '')''))),
      connected as (rqs @ [ReqGet token]))"
  by (simp add: GetCluster_def init_def send_def scripted_def nextAnswer_def connected_def)

lemma lower_deleting: "ToLower ''deleting'' = ''deleting''"
  by code_simp
lemma lookupLoop_found:
  "lookupLoop pattern ms (Some x) =
     (case filter (\<lambda>m. GlobI pattern (TypeName m)) ms of
        [] \<Rightarrow> Inr (Some x)
      | m # rest \<Rightarrow> Inl (MultipleMatchingTemplatesError pattern))"
  by (induction ms) simp_all

lemma lookupLoop_none:
  "lookupLoop pattern ms None =
     (case filter (\<lambda>m. GlobI pattern (TypeName m)) ms of
        [] \<Rightarrow> Inr None
      | [m] \<Rightarrow> Inr (Some m)
      | m # m' # rest \<Rightarrow> Inl (MultipleMatchingTemplatesError pattern))"
  by (induction ms) (simp_all add: lookupLoop_found split: list.splits)

subsection \<open>Quotas\<close>

text \<open>
  C10.  For every state of the adapter, \<open>GetQuotas\<close> returns the empty quotas and no
  error, and it leaves the adapter as it was: the client stays unset where it was unset
  (no authentication) and no call is added to the requests sent to the backend.
\<close>

theorem GetQuotas_empty_no_backend:
  "GetQuotas s = (Inr Quotas, s) \<and>
   client (snd (GetQuotas s)) = client s \<and>
   requests (snd (GetQuotas s)) = requests s \<and>
   backend (snd (GetQuotas s)) = backend s"
  by (simp add: GetQuotas_def)

subsection \<open>Waiting until a cluster is active\<close>

text \<open>
  C8.  For every cluster whose status is "active" when compared case-insensitively,
  \<open>WaitUntilClusterIsActive\<close> returns that same cluster at once: the state of the
  adapter is the one it was called in, so no fetch was sent.
\<close>

theorem WaitUntilClusterIsActive_already_active:
  "ToLower (GetStatus cluster) = ''active'' \<Longrightarrow>
     WaitUntilClusterIsActive api cluster s = Some (Inr cluster, s)"
  by (simp add: WaitUntilClusterIsActive_def isDoneActive_def)

theorem WaitUntilClusterIsActive_already_active_witness:
  "ToLower (GetStatus (web ''ACTIVE'')) = ''active'' \<and>
   WaitUntilClusterIsActive scripted (web ''ACTIVE'') (connected [Inr (web ''deleted'')] []) =
     Some (Inr (web ''ACTIVE''), connected [Inr (web ''deleted'')] []) \<and>
   fetches (connected [Inr (web ''deleted'')] []) = 0"
proof -
  have h: "ToLower (GetStatus (web ''ACTIVE'')) = ''active''"
    by (simp add: GetStatus_def web_def lower_ACTIVE)
  show ?thesis
    using h WaitUntilClusterIsActive_already_active[OF h, of scripted "connected [Inr (web ''deleted'')] []"]
    by (simp add: fetches_def connected_def)
qed

lemma afterPending_fetches:
  "afterPending done api token n s = Some s1 \<Longrightarrow> fetches s1 = fetches s + n"
proof (induction n arbitrary: s)
  case 0
  then show ?case by simp
next
  case (Suc n)
  then show ?case
    by (auto split: prod.splits sum.splits if_splits dest!: GetCluster_fetches)
qed

lemma WaitUntilClusterIsActive_after_pending:
  assumes "\<not> isDoneActive cluster"
    and "afterPending isDoneActive api (GetID cluster) n s = Some s1"
    and "GetCluster api (GetID cluster) s1 = (Inr c, s2)"
    and "isDoneActive c"
  shows "WaitUntilClusterIsActive api cluster s = Some (Inr c, s2) \<and> fetches s2 = fetches s + n + 1"
proof -
  have "WaitUntilClusterIsActive api cluster s = activeLoop api (GetID cluster) s1"
    using assms(1,2) by (rule WaitUntilClusterIsActive_pending)
  also have "\<dots> = Some (Inr c, s2)"
    using assms(3,4) by (rule activeLoop_done)
  finally show ?thesis
    using afterPending_fetches[OF assms(2)] GetCluster_fetches[OF assms(3)] by simp
qed

lemma active_done: "GetStatus c = ''active'' \<Longrightarrow> isDoneActive c"
  by (simp add: isDoneActive_def ToLower_def toLowerChar_def)

text \<open>
  C5, as amended.  When the cluster passed in has the status "building" and the
  successive fetches of the wait return clusters with the statuses "building" and
  "active", so that the statuses seen are "building", "building", "active", the wait
  returns the active cluster after exactly two fetches.  When the cluster passed in is
  not yet active or failed and the fetches of the wait themselves return "building",
  "building" and "active", the wait returns the active cluster after exactly three
  fetches: every status fetched in the wait costs one fetch, the last one included.
\<close>

theorem WaitUntilClusterIsActive_fetch_count:
  "(GetStatus cluster = ''building'' \<and>
    GetCluster api (GetID cluster) s = (Inr c1, s1) \<and> GetStatus c1 = ''building'' \<and>
    GetCluster api (GetID cluster) s1 = (Inr c2, s2) \<and> GetStatus c2 = ''active'' \<longrightarrow>
      WaitUntilClusterIsActive api cluster s = Some (Inr c2, s2) \<and> fetches s2 = fetches s + 2) \<and>
   (\<not> isDoneActive cluster \<and>
    GetCluster api (GetID cluster) s = (Inr c1, s1) \<and> GetStatus c1 = ''building'' \<and>
    GetCluster api (GetID cluster) s1 = (Inr c2, s2) \<and> GetStatus c2 = ''building'' \<and>
    GetCluster api (GetID cluster) s2 = (Inr c3, s3) \<and> GetStatus c3 = ''active'' \<longrightarrow>
      WaitUntilClusterIsActive api cluster s = Some (Inr c3, s3) \<and> fetches s3 = fetches s + 3)"
proof (intro conjI impI)
  assume a: "GetStatus cluster = ''building'' \<and>
    GetCluster api (GetID cluster) s = (Inr c1, s1) \<and> GetStatus c1 = ''building'' \<and>
    GetCluster api (GetID cluster) s1 = (Inr c2, s2) \<and> GetStatus c2 = ''active''"
  then have p: "afterPending isDoneActive api (GetID cluster) (Suc 0) s = Some s1"
    by (simp add: building_pending)
  from a have "\<not> isDoneActive cluster" and "GetCluster api (GetID cluster) s1 = (Inr c2, s2)"
    and "isDoneActive c2"
    by (simp_all add: building_pending active_done)
  from WaitUntilClusterIsActive_after_pending[OF this(1) p this(2,3)]
  show "WaitUntilClusterIsActive api cluster s = Some (Inr c2, s2)" and "fetches s2 = fetches s + 2"
    by simp_all
next
  assume a: "\<not> isDoneActive cluster \<and>
    GetCluster api (GetID cluster) s = (Inr c1, s1) \<and> GetStatus c1 = ''building'' \<and>
    GetCluster api (GetID cluster) s1 = (Inr c2, s2) \<and> GetStatus c2 = ''building'' \<and>
    GetCluster api (GetID cluster) s2 = (Inr c3, s3) \<and> GetStatus c3 = ''active''"
  then have p: "afterPending isDoneActive api (GetID cluster) (Suc (Suc 0)) s = Some s2"
    by (simp add: building_pending)
  from a have "\<not> isDoneActive cluster" and "GetCluster api (GetID cluster) s2 = (Inr c3, s3)"
    and "isDoneActive c3"
    by (simp_all add: active_done)
  from WaitUntilClusterIsActive_after_pending[OF this(1) p this(2,3)]
  show "WaitUntilClusterIsActive api cluster s = Some (Inr c3, s3)" and "fetches s3 = fetches s + 3"
    by simp_all
qed

theorem WaitUntilClusterIsActive_fetch_count_witness:
  "GetStatus (web ''building'') = ''building'' \<and>
   GetCluster scripted (GetID (web ''building''))
       (connected [Inr (web ''building''), Inr (web ''active'')] []) =
     (Inr (web ''building''), connected [Inr (web ''active'')] [ReqGet ''c1'']) \<and>
   GetCluster scripted (GetID (web ''building'')) (connected [Inr (web ''active'')] [ReqGet ''c1'']) =
     (Inr (web ''active''), connected [] [ReqGet ''c1'', ReqGet ''c1'']) \<and>
   GetStatus (web ''active'') = ''active'' \<and>
   WaitUntilClusterIsActive scripted (web ''building'')
       (connected [Inr (web ''building''), Inr (web ''active'')] []) =
     Some (Inr (web ''active''), connected [] [ReqGet ''c1'', ReqGet ''c1'']) \<and>
   fetches (connected [] [ReqGet ''c1'', ReqGet ''c1'']) =
     fetches (connected [Inr (web ''building''), Inr (web ''active'')] []) + 2 \<and>
   \<not> isDoneActive (web ''new'') \<and>
   GetCluster scripted (GetID (web ''new''))
       (connected [Inr (web ''building''), Inr (web ''building''), Inr (web ''active'')] []) =
     (Inr (web ''building''), connected [Inr (web ''building''), Inr (web ''active'')] [ReqGet ''c1'']) \<and>
   GetCluster scripted (GetID (web ''new''))
       (connected [Inr (web ''building''), Inr (web ''active'')] [ReqGet ''c1'']) =
     (Inr (web ''building''), connected [Inr (web ''active'')] [ReqGet ''c1'', ReqGet ''c1'']) \<and>
   GetCluster scripted (GetID (web ''new''))
       (connected [Inr (web ''active'')] [ReqGet ''c1'', ReqGet ''c1'']) =
     (Inr (web ''active''), connected [] [ReqGet ''c1'', ReqGet ''c1'', ReqGet ''c1'']) \<and>
   WaitUntilClusterIsActive scripted (web ''new'')
       (connected [Inr (web ''building''), Inr (web ''building''), Inr (web ''active'')] []) =
     Some (Inr (web ''active''), connected [] [ReqGet ''c1'', ReqGet ''c1'', ReqGet ''c1'']) \<and>
   fetches (connected [] [ReqGet ''c1'', ReqGet ''c1'', ReqGet ''c1'']) =
     fetches (connected [Inr (web ''building''), Inr (web ''building''), Inr (web ''active'')] []) + 3"
proof -
  have n: "\<not> isDoneActive (web ''new'')"
    by (simp add: isDoneActive_def GetStatus_def web_def ToLower_def toLowerChar_def)
  have b: "GetStatus (web ''building'') = ''building''" and a: "GetStatus (web ''active'') = ''active''"
    by (simp_all add: GetStatus_def web_def)
  have g1: "GetCluster scripted (GetID (web ''building''))
       (connected [Inr (web ''building''), Inr (web ''active'')] []) =
     (Inr (web ''building''), connected [Inr (web ''active'')] [ReqGet ''c1''])"
    and g2: "GetCluster scripted (GetID (web ''building'')) (connected [Inr (web ''active'')] [ReqGet ''c1'']) =
     (Inr (web ''active''), connected [] [ReqGet ''c1'', ReqGet ''c1''])"
    and h1: "GetCluster scripted (GetID (web ''new''))
       (connected [Inr (web ''building''), Inr (web ''building''), Inr (web ''active'')] []) =
     (Inr (web ''building''), connected [Inr (web ''building''), Inr (web ''active'')] [ReqGet ''c1''])"
    and h2: "GetCluster scripted (GetID (web ''new''))
       (connected [Inr (web ''building''), Inr (web ''active'')] [ReqGet ''c1'']) =
     (Inr (web ''building''), connected [Inr (web ''active'')] [ReqGet ''c1'', ReqGet ''c1''])"
    and h3: "GetCluster scripted (GetID (web ''new''))
       (connected [Inr (web ''active'')] [ReqGet ''c1'', ReqGet ''c1'']) =
     (Inr (web ''active''), connected [] [ReqGet ''c1'', ReqGet ''c1'', ReqGet ''c1''])"
    by (simp_all add: GetID_def web_def scripted_GetCluster)
  note two = WaitUntilClusterIsActive_fetch_count[THEN conjunct1, THEN mp,
      OF conjI[OF b conjI[OF g1 conjI[OF b conjI[OF g2 a]]]]]
  note three = WaitUntilClusterIsActive_fetch_count[THEN conjunct2, THEN mp,
      OF conjI[OF n conjI[OF h1 conjI[OF b conjI[OF h2 conjI[OF b conjI[OF h3 a]]]]]]]
  from b g1 g2 a two[THEN conjunct1] two[THEN conjunct2] n h1 h2 h3
    three[THEN conjunct1] three[THEN conjunct2]
  show ?thesis by (intro conjI)
qed

text \<open>
  C5 as stated fails: with the three fetches of the wait answered "building", "building"
  and "active", the wait sends three \<open>Get\<close> calls, not two.
\<close>

theorem WaitUntilClusterIsActive_two_fetches_counterexample:
  "WaitUntilClusterIsActive scripted (web ''new'')
       (connected [Inr (web ''building''), Inr (web ''building''), Inr (web ''active'')] []) =
     Some (Inr (web ''active''), connected [] [ReqGet ''c1'', ReqGet ''c1'', ReqGet ''c1'']) \<and>
   fetches (connected [] [ReqGet ''c1'', ReqGet ''c1'', ReqGet ''c1'']) \<noteq>
     fetches (connected [Inr (web ''building''), Inr (web ''building''), Inr (web ''active'')] []) + 2"
proof -
  have n: "\<not> isDoneActive (web ''new'')"
    by (simp add: isDoneActive_def GetStatus_def web_def ToLower_def toLowerChar_def)
  have p: "\<not> isDoneActive (web ''building'')"
    by (simp add: isDoneActive_def GetStatus_def web_def ToLower_def toLowerChar_def)
  have d: "isDoneActive (web ''active'')"
    by (simp add: isDoneActive_def GetStatus_def web_def ToLower_def toLowerChar_def)
  have i: "GetID (web ''new'') = ''c1''"
    by (simp add: GetID_def web_def)
  have "WaitUntilClusterIsActive scripted (web ''new'')
       (connected [Inr (web ''building''), Inr (web ''building''), Inr (web ''active'')] []) =
     activeLoop scripted ''c1'' (connected [Inr (web ''building''), Inr (web ''building''), Inr (web ''active'')] [])"
    using n by (simp add: WaitUntilClusterIsActive_def i)
  also have "\<dots> = activeLoop scripted ''c1'' (connected [Inr (web ''building''), Inr (web ''active'')] [ReqGet ''c1''])"
    by (subst activeLoop.simps) (simp add: scripted_GetCluster p)
  also have "\<dots> = activeLoop scripted ''c1'' (connected [Inr (web ''active'')] [ReqGet ''c1'', ReqGet ''c1''])"
    by (subst activeLoop.simps) (simp add: scripted_GetCluster p)
  also have "\<dots> = Some (Inr (web ''active''), connected [] [ReqGet ''c1'', ReqGet ''c1'', ReqGet ''c1''])"
    by (subst activeLoop.simps) (simp add: scripted_GetCluster d)
  finally show ?thesis
    by (simp add: fetches_def connected_def)
qed

text \<open>
  C6.  When \<open>WaitUntilClusterIsActive\<close> returns, either the cluster passed in already
  had the status "active" or "error" (compared case-insensitively) and is returned
  unchanged, or, after some rounds that found the cluster pending, a fetch returned a
  cluster with the status "active" or "error", which is the result, or a fetch failed,
  and its error is the result.  A cluster with the status "error", whether passed in or
  fetched, is returned as the result with no error.
\<close>

theorem WaitUntilClusterIsActive_terminal:
  "(WaitUntilClusterIsActive api cluster s = Some (r, s') \<longrightarrow>
      (r = Inr cluster \<and> s' = s \<and>
         (ToLower (GetStatus cluster) = ''active'' \<or> ToLower (GetStatus cluster) = ''error'')) \<or>
      (\<exists>n s1. afterPending isDoneActive api (GetID cluster) n s = Some s1 \<and>
         ((\<exists>c. GetCluster api (GetID cluster) s1 = (Inr c, s') \<and> r = Inr c \<and>
               (ToLower (GetStatus c) = ''active'' \<or> ToLower (GetStatus c) = ''error'')) \<or>
          (\<exists>err. GetCluster api (GetID cluster) s1 = (Inl err, s') \<and> r = Inl err)))) \<and>
   (ToLower (GetStatus cluster) = ''error'' \<longrightarrow>
      WaitUntilClusterIsActive api cluster s = Some (Inr cluster, s)) \<and>
   (\<not> isDoneActive cluster \<and> afterPending isDoneActive api (GetID cluster) k s = Some s2 \<and>
      GetCluster api (GetID cluster) s2 = (Inr c, s3) \<and> ToLower (GetStatus c) = ''error'' \<longrightarrow>
      WaitUntilClusterIsActive api cluster s = Some (Inr c, s3))"
proof (intro conjI impI)
  assume w: "WaitUntilClusterIsActive api cluster s = Some (r, s')"
  show "(r = Inr cluster \<and> s' = s \<and>
         (ToLower (GetStatus cluster) = ''active'' \<or> ToLower (GetStatus cluster) = ''error'')) \<or>
      (\<exists>n s1. afterPending isDoneActive api (GetID cluster) n s = Some s1 \<and>
         ((\<exists>c. GetCluster api (GetID cluster) s1 = (Inr c, s') \<and> r = Inr c \<and>
               (ToLower (GetStatus c) = ''active'' \<or> ToLower (GetStatus c) = ''error'')) \<or>
          (\<exists>err. GetCluster api (GetID cluster) s1 = (Inl err, s') \<and> r = Inl err)))"
  proof (cases "isDoneActive cluster")
    case True
    with w show ?thesis
      by (auto simp: WaitUntilClusterIsActive_def isDoneActive_iff)
  next
    case False
    with w have "activeLoop api (GetID cluster) s = Some (r, s')"
      by (simp add: WaitUntilClusterIsActive_def)
    from activeLoop_returns[OF this] show ?thesis
      unfolding isDoneActive_iff fst_conv snd_conv by blast
  qed
next
  assume "ToLower (GetStatus cluster) = ''error''"
  then show "WaitUntilClusterIsActive api cluster s = Some (Inr cluster, s)"
    by (simp add: WaitUntilClusterIsActive_def isDoneActive_iff)
next
  assume a: "\<not> isDoneActive cluster \<and> afterPending isDoneActive api (GetID cluster) k s = Some s2 \<and>
      GetCluster api (GetID cluster) s2 = (Inr c, s3) \<and> ToLower (GetStatus c) = ''error''"
  then have "WaitUntilClusterIsActive api cluster s = activeLoop api (GetID cluster) s2"
    using WaitUntilClusterIsActive_pending[of cluster api k s s2] by blast
  also have "\<dots> = Some (Inr c, s3)"
    using a activeLoop_done[of api "GetID cluster" s2 c s3] by (simp add: isDoneActive_iff)
  finally show "WaitUntilClusterIsActive api cluster s = Some (Inr c, s3)" .
qed

theorem WaitUntilClusterIsActive_terminal_witness:
  "ToLower (GetStatus (web ''ERROR'')) = ''error'' \<and>
   WaitUntilClusterIsActive scripted (web ''ERROR'')
       (connected [Inr (web ''building''), Inr (web ''Error'')] []) =
     Some (Inr (web ''ERROR''), connected [Inr (web ''building''), Inr (web ''Error'')] []) \<and>
   \<not> isDoneActive (web ''new'') \<and>
   afterPending isDoneActive scripted (GetID (web ''new'')) 1
       (connected [Inr (web ''building''), Inr (web ''Error'')] []) =
     Some (connected [Inr (web ''Error'')] [ReqGet ''c1'']) \<and>
   GetCluster scripted (GetID (web ''new'')) (connected [Inr (web ''Error'')] [ReqGet ''c1'']) =
     (Inr (web ''Error''), connected [] [ReqGet ''c1'', ReqGet ''c1'']) \<and>
   ToLower (GetStatus (web ''Error'')) = ''error'' \<and>
   WaitUntilClusterIsActive scripted (web ''new'')
       (connected [Inr (web ''building''), Inr (web ''Error'')] []) =
     Some (Inr (web ''Error''), connected [] [ReqGet ''c1'', ReqGet ''c1''])"
proof -
  have e1: "ToLower (GetStatus (web ''ERROR'')) = ''error''"
    by (simp add: GetStatus_def web_def lower_ERROR)
  have e2: "ToLower (GetStatus (web ''Error'')) = ''error''"
    by (simp add: GetStatus_def web_def lower_Error)
  have n: "\<not> isDoneActive (web ''new'')"
    by (simp add: isDoneActive_iff GetStatus_def web_def lower_new)
  have b: "\<not> isDoneActive (web ''building'')"
    by (simp add: isDoneActive_iff GetStatus_def web_def lower_building)
  have i: "GetID (web ''new'') = ''c1''"
    by (simp add: GetID_def web_def)
  have p: "afterPending isDoneActive scripted (GetID (web ''new'')) 1
       (connected [Inr (web ''building''), Inr (web ''Error'')] []) =
     Some (connected [Inr (web ''Error'')] [ReqGet ''c1''])"
    by (simp add: i scripted_GetCluster b)
  have g: "GetCluster scripted (GetID (web ''new'')) (connected [Inr (web ''Error'')] [ReqGet ''c1'']) =
     (Inr (web ''Error''), connected [] [ReqGet ''c1'', ReqGet ''c1''])"
    by (simp add: i scripted_GetCluster)
  show ?thesis
    using e1 e2 n p g
      WaitUntilClusterIsActive_terminal[of scripted "web ''ERROR''"
        "connected [Inr (web ''building''), Inr (web ''Error'')] []"]
      WaitUntilClusterIsActive_terminal[of scripted "web ''new''"
        "connected [Inr (web ''building''), Inr (web ''Error'')] []" _ _ 1
        "connected [Inr (web ''Error'')] [ReqGet ''c1'']" "web ''Error''"
        "connected [] [ReqGet ''c1'', ReqGet ''c1'']"]
    by simp
qed

subsection \<open>Waiting until a cluster is deleted\<close>

text \<open>
  C7.  In any round of \<open>WaitUntilClusterIsDeleted\<close> (after \<open>n\<close> rounds that found the
  cluster pending): a fetch that fails with an error whose cause is the HTTP error 404
  makes the wait return no error; a fetched cluster with the status "error" (compared
  case-insensitively) makes it return the deletion error; a fetch that fails with any
  other error makes it return that error, in the state the failed fetch left, so without
  another fetch.
\<close>

theorem WaitUntilClusterIsDeleted_fetch_outcomes:
  assumes "\<not> fst (isDoneDeleted cluster)"
    and "afterPending (\<lambda>c. fst (isDoneDeleted c)) api (GetID cluster) n s = Some s1"
  shows "(GetCluster api (GetID cluster) s1 = (Inl err, s2) \<and> Cause err = HTTPErr 404 \<longrightarrow>
            WaitUntilClusterIsDeleted api cluster s = Some (None, s2)) \<and>
         (GetCluster api (GetID cluster) s1 = (Inr c, s2) \<and> ToLower (GetStatus c) = ''error'' \<longrightarrow>
            WaitUntilClusterIsDeleted api cluster s = Some (Some deletionError, s2)) \<and>
         (GetCluster api (GetID cluster) s1 = (Inl err, s2) \<and> Cause err \<noteq> HTTPErr 404 \<longrightarrow>
            WaitUntilClusterIsDeleted api cluster s = Some (Some err, s2))"
proof -
  have "WaitUntilClusterIsDeleted api cluster s = deletedLoop api (GetID cluster) s"
    using assms(1) by (cases "isDoneDeleted cluster") (simp add: WaitUntilClusterIsDeleted_def)
  also have "\<dots> = deletedLoop api (GetID cluster) s1"
    using assms(2) by (rule deletedLoop_pending)
  finally show ?thesis
    using deletedLoop_not_found[of api "GetID cluster" s1 err s2]
      deletedLoop_failed[of api "GetID cluster" s1 err s2]
      deletedLoop_error_status[of api "GetID cluster" s1 c s2]
    by (simp add: StatusNotFound_def)
qed

theorem WaitUntilClusterIsDeleted_fetch_outcomes_witness:
  "\<not> fst (isDoneDeleted (web ''active'')) \<and>
   afterPending (\<lambda>c. fst (isDoneDeleted c)) scripted (GetID (web ''active'')) 1
       (connected [Inr (web ''deleting''), Inl (HTTPErr 404)] []) =
     Some (connected [Inl (HTTPErr 404)] [ReqGet ''c1'']) \<and>
   GetCluster scripted (GetID (web ''active'')) (connected [Inl (HTTPErr 404)] [ReqGet ''c1'']) =
     (Inl (HTTPErr 404), connected [] [ReqGet ''c1'', ReqGet ''c1'']) \<and>
   Cause (HTTPErr 404) = HTTPErr 404 \<and>
   WaitUntilClusterIsDeleted scripted (web ''active'')
       (connected [Inr (web ''deleting''), Inl (HTTPErr 404)] []) =
     Some (None, connected [] [ReqGet ''c1'', ReqGet ''c1'']) \<and>
   afterPending (\<lambda>c. fst (isDoneDeleted c)) scripted (GetID (web ''active'')) 0
       (connected [Inr (web ''ERROR'')] []) = Some (connected [Inr (web ''ERROR'')] []) \<and>
   GetCluster scripted (GetID (web ''active'')) (connected [Inr (web ''ERROR'')] []) =
     (Inr (web ''ERROR''), connected [] [ReqGet ''c1'']) \<and>
   ToLower (GetStatus (web ''ERROR'')) = ''error'' \<and>
   WaitUntilClusterIsDeleted scripted (web ''active'') (connected [Inr (web ''ERROR'')] []) =
     Some (Some deletionError, connected [] [ReqGet ''c1'']) \<and>
   afterPending (\<lambda>c. fst (isDoneDeleted c)) scripted (GetID (web ''active'')) 0
       (connected [Inl (ErrorString ''timeout''), Inr (web ''deleted'')] []) =
     Some (connected [Inl (ErrorString ''timeout''), Inr (web ''deleted'')] []) \<and>
   GetCluster scripted (GetID (web ''active''))
       (connected [Inl (ErrorString ''timeout''), Inr (web ''deleted'')] []) =
     (Inl (Wrapped (ErrorString ''timeout'') ''[make-coe] Unable to retrieve cluster (c1)''),
      connected [Inr (web ''deleted'')] [ReqGet ''c1'']) \<and>
   Cause (Wrapped (ErrorString ''timeout'') ''[make-coe] Unable to retrieve cluster (c1)'') \<noteq> HTTPErr 404 \<and>
   WaitUntilClusterIsDeleted scripted (web ''active'')
       (connected [Inl (ErrorString ''timeout''), Inr (web ''deleted'')] []) =
     Some (Some (Wrapped (ErrorString ''timeout'') ''[make-coe] Unable to retrieve cluster (c1)''),
           connected [Inr (web ''deleted'')] [ReqGet ''c1''])"
proof -
  have a: "\<not> fst (isDoneDeleted (web ''active''))"
    by (simp add: isDoneDeleted_def GetStatus_def web_def ToLower_def toLowerChar_def)
  have d: "\<not> fst (isDoneDeleted (web ''deleting''))"
    by (simp add: isDoneDeleted_def GetStatus_def web_def lower_deleting)
  have e: "ToLower (GetStatus (web ''ERROR'')) = ''error''"
    by (simp add: GetStatus_def web_def lower_ERROR)
  have i: "GetID (web ''active'') = ''c1''"
    by (simp add: GetID_def web_def)
  have p1: "afterPending (\<lambda>c. fst (isDoneDeleted c)) scripted (GetID (web ''active'')) 1
       (connected [Inr (web ''deleting''), Inl (HTTPErr 404)] []) =
     Some (connected [Inl (HTTPErr 404)] [ReqGet ''c1''])"
    by (simp add: i scripted_GetCluster d)
  have g1: "GetCluster scripted (GetID (web ''active'')) (connected [Inl (HTTPErr 404)] [ReqGet ''c1'']) =
     (Inl (HTTPErr 404), connected [] [ReqGet ''c1'', ReqGet ''c1''])"
    by (simp add: i scripted_GetCluster_failed handleLibcarinaError_def handleHTTPError_def)
  have p2: "afterPending (\<lambda>c. fst (isDoneDeleted c)) scripted (GetID (web ''active'')) 0
       (connected [Inr (web ''ERROR'')] []) = Some (connected [Inr (web ''ERROR'')] [])"
    by simp
  have g2: "GetCluster scripted (GetID (web ''active'')) (connected [Inr (web ''ERROR'')] []) =
     (Inr (web ''ERROR''), connected [] [ReqGet ''c1''])"
    by (simp add: i scripted_GetCluster)
  have p3: "afterPending (\<lambda>c. fst (isDoneDeleted c)) scripted (GetID (web ''active'')) 0
       (connected [Inl (ErrorString ''timeout''), Inr (web ''deleted'')] []) =
     Some (connected [Inl (ErrorString ''timeout''), Inr (web ''deleted'')] [])"
    by simp
  have g3: "GetCluster scripted (GetID (web ''active''))
       (connected [Inl (ErrorString ''timeout''), Inr (web ''deleted'')] []) =
     (Inl (Wrapped (ErrorString ''timeout'') ''[make-coe] Unable to retrieve cluster (c1)''),
      connected [Inr (web ''deleted'')] [ReqGet ''c1''])"
    by (simp add: i scripted_GetCluster_failed handleLibcarinaError_def)
  show ?thesis
    using a e p1 g1 p2 g2 p3 g3
      WaitUntilClusterIsDeleted_fetch_outcomes[OF a p1, of "HTTPErr 404" "connected [] [ReqGet ''c1'', ReqGet ''c1'']"]
      WaitUntilClusterIsDeleted_fetch_outcomes[OF a p2, of _ "connected [] [ReqGet ''c1'']" "web ''ERROR''"]
      WaitUntilClusterIsDeleted_fetch_outcomes[OF a p3,
        of "Wrapped (ErrorString ''timeout'') ''[make-coe] Unable to retrieve cluster (c1)''"
        "connected [Inr (web ''deleted'')] [ReqGet ''c1'']"]
    by simp
qed

subsection \<open>Deleting the credentials of a cluster\<close>



lemma ClientDeleteClusterCredentials_unresolved:
  "buildClusterCredentialsPath pk account name customPath = (built, Some err) \<Longrightarrow>
     ClientDeleteClusterCredentials os pk account name customPath w = (Some err, w)"
  by (simp add: ClientDeleteClusterCredentials_def)


lemma clean_web: "lexicalClean ''/home/user/.carina/clusters/acct/web'' = ''/home/user/.carina/clusters/acct/web''"
  by code_simp

lemma join_web: "lexicalJoin ''/home/user/.carina/clusters/acct/web'' ''ca.pem'' = ''/home/user/.carina/clusters/acct/web/ca.pem''"
  by code_simp

lemma example_build_default:
  "buildClusterCredentialsPath examplePackage ''acct'' ''web'' [] =
     (''/home/user/.carina/clusters/acct/web'', None)"
  by (simp add: examplePackage_def)



lemma exampleOS_simps:
  "Clean exampleOS = lexicalClean"
  "Join exampleOS = lexicalJoin"
  "Stat exampleOS p d = (if p \<in> set d then None else Some (PathError ''stat'' p (Errno 2)))"
  "RemoveAll exampleOS p d = (None, filter (\<lambda>q. \<not> under p q) d)"
  "MkdirAll exampleOS p d = (None, if p \<in> set d then d else d @ [p])"
  "WriteFile exampleOS p contents d = (None, if p \<in> set d then d else d @ [p])"
  by (simp_all add: exampleOS_def)



subsection \<open>Resolving a template\<close>

text \<open>
  C4.  For every pattern and every set of templates in the cache of the adapter,
  \<open>lookupClusterTypeByName\<close> matches the pattern against the names of the templates with
  the case-insensitive glob \<open>GlobI\<close>: with no matching template it returns the error
  "Could not find template named" followed by the pattern, with exactly one it returns
  that template, and with two or more it returns the error for multiple matching
  templates that carries the pattern, never one of the matches.
\<close>

theorem lookupClusterTypeByName_by_matches:
  assumes "getClusterTypeCache api s = (Inr cache, s')"
  shows "lookupClusterTypeByName api pattern s =
     (case filter (\<lambda>m. GlobI pattern (TypeName m)) (map snd cache) of
        [] \<Rightarrow> (Inl (ErrorString (''Could not find template named '' @ pattern)), s')
      | [m] \<Rightarrow> (Inr m, s')
      | m # m' # rest \<Rightarrow> (Inl (MultipleMatchingTemplatesError pattern), s'))"
  using assms by (simp add: lookupClusterTypeByName_def lookupLoop_none split: list.splits)

text \<open>
  The cache holds the templates of the listing, one entry per template, when their ids
  are distinct; and the walk over the cache gives the same result whatever the order in
  which the entries are visited, as the order of a Go map is not fixed.
\<close>

lemma store_fresh: "k \<notin> fst ` set cache \<Longrightarrow> store k v cache = cache @ [(k, v)]"
  by (induction cache) auto

lemma fillCache_distinct:
  "distinct (map TypeID ts) \<Longrightarrow> TypeID ` set ts \<inter> fst ` set cache = {} \<Longrightarrow>
     fillCache ts cache = cache @ map (\<lambda>t. (TypeID t, t)) ts"
proof (induction ts arbitrary: cache)
  case Nil
  then show ?case by simp
next
  case (Cons t ts)
  have f: "TypeID t \<notin> fst ` set cache" using Cons.prems(2) by auto
  have "TypeID ` set ts \<inter> fst ` set (cache @ [(TypeID t, t)]) = {}"
    using Cons.prems by auto
  with Cons show ?case by (simp add: store_fresh[OF f])
qed

lemma getClusterTypeCache_listing:
  assumes "clusterTypeCache s = None"
    and "ListClusterTypes api (backend s) = (Inr ts, b')"
    and "distinct (map TypeID ts)"
  shows "getClusterTypeCache api s =
     (Inr (map (\<lambda>t. (TypeID t, t)) ts),
      s\<lparr>backend := b', requests := requests s @ [ReqListClusterTypes],
        clusterTypeCache := Some (map (\<lambda>t. (TypeID t, t)) ts)\<rparr>)"
  using assms fillCache_distinct[of ts "[]"]
  by (simp add: getClusterTypeCache_def listClusterTypes_def send_def Let_def)

lemma lookupLoop_any_order:
  assumes "mset ms' = mset ms"
  shows "lookupLoop pattern ms' None = lookupLoop pattern ms None"
proof -
  let ?f = "filter (\<lambda>m. GlobI pattern (TypeName m))"
  have m: "mset (?f ms') = mset (?f ms)" using assms by simp
  show ?thesis
  proof (cases "?f ms")
    case Nil
    with m show ?thesis by (simp add: lookupLoop_none)
  next
    case (Cons a as)
    note c = Cons
    show ?thesis
    proof (cases as)
      case Nil
      define xs where "xs = ?f ms'"
      have "mset xs = mset [a]" using m unfolding c Nil xs_def .
      then have "xs = [a]" by simp
      then have "?f ms' = [a]" by (simp only: xs_def)
      with c Nil show ?thesis by (simp add: lookupLoop_none)
    next
      case (Cons b bs)
      from m have "length (?f ms') = length (?f ms)" by (rule mset_eq_length)
      with c Cons obtain a' b' bs' where "?f ms' = a' # b' # bs'"
        by (cases "?f ms'"; cases "tl (?f ms')") auto
      with c Cons show ?thesis by (simp add: lookupLoop_none)
    qed
  qed
qed

lemma catalog_matches:
  "filter (\<lambda>m. GlobI ''Kubernetes*'' (TypeName m)) catalog =
     [template 1 ''Kubernetes-Small'', template 2 ''Kubernetes-Large'']"
  "filter (\<lambda>m. GlobI ''Kubernetes-S*'' (TypeName m)) catalog = [template 1 ''Kubernetes-Small'']"
  "filter (\<lambda>m. GlobI ''Nonexistent*'' (TypeName m)) catalog = []"
  "filter (\<lambda>m. GlobI ''kubernetes-small'' (TypeName m)) catalog = [template 1 ''Kubernetes-Small'']"
  by code_simp+

lemma catalog_cache:
  "getClusterTypeCache scripted (withCatalog True []) =
     (Inr (map (\<lambda>t. (TypeID t, t)) catalog),
      (withCatalog True [ReqListClusterTypes])\<lparr>clusterTypeCache := Some (map (\<lambda>t. (TypeID t, t)) catalog)\<rparr>)"
proof -
  have "distinct (map TypeID catalog)" by (simp add: catalog_def template_def)
  from getClusterTypeCache_listing[of "withCatalog True []" scripted catalog
      "\<lparr>answers = [], types = catalog\<rparr>", OF _ _ this]
  show ?thesis by (simp add: withCatalog_def scripted_def)
qed

text \<open>
  The examples of the spec: among the templates Kubernetes-Small, Kubernetes-Large and
  Swarm-Small, \<open>Kubernetes*\<close> is ambiguous, \<open>Kubernetes-S*\<close> yields Kubernetes-Small,
  \<open>Nonexistent*\<close> is not found and \<open>kubernetes-small\<close> matches Kubernetes-Small.
\<close>

theorem lookupClusterTypeByName_by_matches_witness:
  "getClusterTypeCache scripted (withCatalog True []) =
     (Inr (map (\<lambda>t. (TypeID t, t)) catalog),
      (withCatalog True [ReqListClusterTypes])\<lparr>clusterTypeCache := Some (map (\<lambda>t. (TypeID t, t)) catalog)\<rparr>) \<and>
   fst (lookupClusterTypeByName scripted ''Kubernetes*'' (withCatalog True [])) =
     Inl (MultipleMatchingTemplatesError ''Kubernetes*'') \<and>
   fst (lookupClusterTypeByName scripted ''Kubernetes-S*'' (withCatalog True [])) =
     Inr (template 1 ''Kubernetes-Small'') \<and>
   fst (lookupClusterTypeByName scripted ''Nonexistent*'' (withCatalog True [])) =
     Inl (ErrorString ''Could not find template named Nonexistent*'') \<and>
   fst (lookupClusterTypeByName scripted ''kubernetes-small'' (withCatalog True [])) =
     Inr (template 1 ''Kubernetes-Small'')"
proof -
  have i: "map snd (map (\<lambda>t. (TypeID t, t)) catalog) = catalog"
    by (simp add: comp_def)
  show ?thesis
    using catalog_cache
      lookupClusterTypeByName_by_matches[OF catalog_cache, of "''Kubernetes*''"]
      lookupClusterTypeByName_by_matches[OF catalog_cache, of "''Kubernetes-S*''"]
      lookupClusterTypeByName_by_matches[OF catalog_cache, of "''Nonexistent*''"]
      lookupClusterTypeByName_by_matches[OF catalog_cache, of "''kubernetes-small''"]
    unfolding i catalog_matches by simp
qed


subsection \<open>Listing templates\<close>

lemma scripted_ListClusterTemplates:
  "ListClusterTemplates scripted (withCatalog False rqs) =
     (Inr catalog, withCatalog True (rqs @ [ReqAuthenticate, ReqListClusterTypes]))"
  by (simp add: ListClusterTemplates_def init_def listClusterTypes_def send_def scripted_def
      withCatalog_def)

lemma newMakeCOE_withCatalog: "newMakeCOE account (withCatalog a rqs) = withCatalog False rqs"
  by (simp add: newMakeCOE_def withCatalog_def)

lemma MakeCOEService_simps:
  "NewClusterService (MakeCOEService api) = newMakeCOE"
  "svcListClusterTemplates (MakeCOEService api) = ListClusterTemplates api"
  "svcDeleteCluster (MakeCOEService api) = DeleteCluster api"
  "svcWaitUntilClusterIsDeleted (MakeCOEService api) = WaitUntilClusterIsDeleted api"
  "svcWaitUntilClusterIsActive (MakeCOEService api) = WaitUntilClusterIsActive api"
  "svcCreateCluster (MakeCOEService api) = CreateCluster api"
  "svcGetCluster (MakeCOEService api) = GetCluster api"
  "svcGrowCluster (MakeCOEService api) = GrowCluster"
  "svcResizeCluster (MakeCOEService api) = ResizeCluster api"
  "svcRebuildCluster (MakeCOEService api) = RebuildCluster"
  "svcGetQuotas (MakeCOEService api) = GetQuotas"
  by (simp_all add: MakeCOEService_def)

lemma filter_small:
  "filter (\<lambda>t. Glob ''kubernetes-small'' (GetTemplateName t)) catalog = []"
  by code_simp

lemma lower_small: "ToLower ''kubernetes-small'' = ToLower ''Kubernetes-Small''"
  by code_simp

lemma ClientListClusterTemplates_filter:
  "svcListClusterTemplates svc (NewClusterService svc account (service w)) = (Inr templates, s') \<and>
      nameFilter \<noteq> [] \<longrightarrow>
      fst (ClientListClusterTemplates svc account nameFilter w) =
        Inr (filter (\<lambda>t. Glob nameFilter (GetTemplateName t)) templates)"
  by (simp add: ClientListClusterTemplates_def deferSaveAccount_def buildContainerService_def
      onService_def applyCache_def wrapResult_def)

text \<open>
  C9.  \<open>Client.ListClusterTemplates\<close> keeps, of the templates the service lists, those
  whose name matches the non-empty name filter under \<open>Glob\<close>, the glob that does not
  fold case.  So for the templates of the example and the filter \<open>kubernetes-small\<close>,
  which differs from the name Kubernetes-Small only in letter case, the template is left
  out of the result, while template resolution finds it under the same pattern.
\<close>

theorem ClientListClusterTemplates_case_sensitive:
  "(svcListClusterTemplates svc (NewClusterService svc account (service w)) = (Inr templates, s') \<and>
      nameFilter \<noteq> [] \<longrightarrow>
      fst (ClientListClusterTemplates svc account nameFilter w) =
        Inr (filter (\<lambda>t. Glob nameFilter (GetTemplateName t)) templates)) \<and>
   template 1 ''Kubernetes-Small'' \<in> set catalog \<and>
   ''kubernetes-small'' \<noteq> GetTemplateName (template 1 ''Kubernetes-Small'') \<and>
   ToLower ''kubernetes-small'' = ToLower (GetTemplateName (template 1 ''Kubernetes-Small'')) \<and>
   fst (ClientListClusterTemplates (MakeCOEService scripted) ''acct'' ''kubernetes-small''
          (exampleWorld (withCatalog False []) [])) = Inr [] \<and>
   fst (lookupClusterTypeByName scripted ''kubernetes-small'' (withCatalog True [])) =
     Inr (template 1 ''Kubernetes-Small'')"
proof -
  note g = ClientListClusterTemplates_filter
  have e: "fst (ClientListClusterTemplates (MakeCOEService scripted) ''acct'' ''kubernetes-small''
          (exampleWorld (withCatalog False []) [])) = Inr []"
    using g[of "MakeCOEService scripted" "''acct''" "exampleWorld (withCatalog False []) []" catalog
        "withCatalog True [ReqAuthenticate, ReqListClusterTypes]" "''kubernetes-small''"]
    unfolding filter_small
    by (simp add: MakeCOEService_simps exampleWorld_def newMakeCOE_withCatalog
        scripted_ListClusterTemplates del: Glob.simps)
  have i: "map snd (map (\<lambda>t. (TypeID t, t)) catalog) = catalog"
    by (simp add: comp_def)
  have "lookupLoop ''kubernetes-small'' (map snd (map (\<lambda>t. (TypeID t, t)) catalog)) None =
      Inr (Some (template 1 ''Kubernetes-Small''))"
    unfolding i lookupLoop_none catalog_matches by simp
  then have l: "fst (lookupClusterTypeByName scripted ''kubernetes-small'' (withCatalog True [])) =
     Inr (template 1 ''Kubernetes-Small'')"
    by (simp only: lookupClusterTypeByName_def catalog_cache prod.case sum.case option.case fst_conv)
  show ?thesis
    using g[of svc account w templates s' nameFilter] e l
    by (simp add: catalog_def GetTemplateName_def template_def lower_small)
qed

theorem ClientListClusterTemplates_case_sensitive_witness:
  "svcListClusterTemplates (MakeCOEService scripted)
      (NewClusterService (MakeCOEService scripted) ''acct''
         (service (exampleWorld (withCatalog False []) []))) =
     (Inr catalog, withCatalog True [ReqAuthenticate, ReqListClusterTypes]) \<and>
   ''Kubernetes-S*'' \<noteq> [] \<and>
   fst (ClientListClusterTemplates (MakeCOEService scripted) ''acct'' ''Kubernetes-S*''
          (exampleWorld (withCatalog False []) [])) = Inr [template 1 ''Kubernetes-Small'']"
proof -
  have f: "filter (\<lambda>t. Glob ''Kubernetes-S*'' (GetTemplateName t)) catalog =
      [template 1 ''Kubernetes-Small'']"
    by code_simp
  have s: "svcListClusterTemplates (MakeCOEService scripted)
      (NewClusterService (MakeCOEService scripted) ''acct''
         (service (exampleWorld (withCatalog False []) []))) =
     (Inr catalog, withCatalog True [ReqAuthenticate, ReqListClusterTypes])"
    by (simp add: MakeCOEService_simps exampleWorld_def newMakeCOE_withCatalog
        scripted_ListClusterTemplates)
  have ne: "''Kubernetes-S*'' \<noteq> []"
    by simp
  have r: "fst (ClientListClusterTemplates (MakeCOEService scripted) ''acct'' ''Kubernetes-S*''
          (exampleWorld (withCatalog False []) [])) = Inr [template 1 ''Kubernetes-Small'']"
    using ClientListClusterTemplates_case_sensitive[of "MakeCOEService scripted" "''acct''"
        "exampleWorld (withCatalog False []) []" catalog
        "withCatalog True [ReqAuthenticate, ReqListClusterTypes]" "''Kubernetes-S*''",
        THEN conjunct1, THEN mp, OF conjI[OF s ne]]
    unfolding f .
  from s ne r show ?thesis by (intro conjI)
qed


subsection \<open>Deleting a cluster that the backend does not find\<close>

lemma lower_deleted: "ToLower ''deleted'' = ''deleted''"
  by code_simp

lemma deleted_is_done: "isDoneDeleted (newCluster\<lparr>Status := ''deleted''\<rparr>) = (True, None)"
  by (simp add: isDoneDeleted_def GetStatus_def lower_deleted)

lemma DeleteCluster_404:
  assumes "init api s = (None, s1)"
    and "Delete api token (backend s1) = (Inl err, b2)"
    and "Cause err = HTTPErr 404"
  shows "DeleteCluster api token s =
     (Inr (newCluster\<lparr>Status := ''deleted''\<rparr>),
      s1\<lparr>backend := b2, requests := requests s1 @ [ReqDelete token]\<rparr>)"
  using assms by (simp add: DeleteCluster_def send_def StatusNotFound_def Let_def)

text \<open>
  C2.  When the adapter is authenticated and the backend answers \<open>Delete\<close> with an error
  whose cause is the HTTP error 404, \<open>MakeCOE.DeleteCluster\<close> returns no error and the
  new cluster record with the status "deleted"; and \<open>Client.DeleteCluster\<close>, on the
  service it has just built, then calls \<open>DeleteClusterCredentials\<close> for the account and
  the name with no override directory and returns what that returns, whether or not it
  was asked to wait for the deletion.
\<close>

theorem DeleteCluster_not_found:
  assumes "init api s = (None, s1)"
    and "Delete api name (backend s1) = (Inl err, b2)"
    and "Cause err = HTTPErr 404"
    and "s2 = s1\<lparr>backend := b2, requests := requests s1 @ [ReqDelete name]\<rparr>"
  shows "DeleteCluster api name s = (Inr (newCluster\<lparr>Status := ''deleted''\<rparr>), s2) \<and>
         GetStatus (newCluster\<lparr>Status := ''deleted''\<rparr>) = ''deleted'' \<and>
         (s = NewClusterService (MakeCOEService api) account (service w) \<and>
          w3 = (applyCache account w)\<lparr>service := s2\<rparr> \<longrightarrow>
            ClientDeleteCluster (MakeCOEService api) os pk account name waitUntilDeleted w =
              Some (wrapClientError (fst (ClientDeleteClusterCredentials os pk account name [] w3)),
                    SaveAccount account (snd (ClientDeleteClusterCredentials os pk account name [] w3))))"
proof (intro conjI impI)
  show d: "DeleteCluster api name s = (Inr (newCluster\<lparr>Status := ''deleted''\<rparr>), s2)"
    using DeleteCluster_404[OF assms(1-3)] assms(4) by simp
  show "GetStatus (newCluster\<lparr>Status := ''deleted''\<rparr>) = ''deleted''"
    by (simp add: GetStatus_def)
  assume a: "s = NewClusterService (MakeCOEService api) account (service w) \<and>
          w3 = (applyCache account w)\<lparr>service := s2\<rparr>"
  have w: "WaitUntilClusterIsDeleted api (newCluster\<lparr>Status := ''deleted''\<rparr>) s2 = Some (None, s2)"
    by (simp add: WaitUntilClusterIsDeleted_def deleted_is_done)
  obtain e w4 where c: "ClientDeleteClusterCredentials os pk account name [] w3 = (e, w4)"
    by (cases "ClientDeleteClusterCredentials os pk account name [] w3")
  show "ClientDeleteCluster (MakeCOEService api) os pk account name waitUntilDeleted w =
      Some (wrapClientError (fst (ClientDeleteClusterCredentials os pk account name [] w3)),
            SaveAccount account (snd (ClientDeleteClusterCredentials os pk account name [] w3)))"
    using a d w c
    by (simp add: ClientDeleteCluster_def buildContainerService_def onService_def onServiceWait_def
        MakeCOEService_simps deferSaveAccount_def)
qed


lemma newMakeCOE_connected: "newMakeCOE account (connected as rqs) = disconnected as rqs"
  by (simp add: newMakeCOE_def connected_def disconnected_def)

lemma scripted_init:
  "init scripted (disconnected as rqs) = (None, connected as (rqs @ [ReqAuthenticate]))"
  by (simp add: init_def send_def scripted_def connected_def disconnected_def)

lemma scripted_simps:
  "Get scripted token = nextAnswer"
  "Delete scripted token = nextAnswer"
  "Create scripted opts = nextAnswer"
  "Resize scripted token nodes = nextAnswer"
  "Authenticate scripted b = (None, b)"
  by (simp_all add: scripted_def)

lemma example_delete_credentials:
  "ClientDeleteClusterCredentials exampleOS examplePackage ''acct'' ''web'' []
     \<lparr>service = s,
      disk = [''/home/user/.carina/clusters/acct/web'', ''/home/user/.carina/clusters/acct/web/ca.pem'',
              ''/home/user/.carina/clusters/acct/db''],
      cacheCalls = cs\<rparr> =
   (None, \<lparr>service = s, disk = [''/home/user/.carina/clusters/acct/db''], cacheCalls = cs\<rparr>)"
  by (simp add: ClientDeleteClusterCredentials_def example_build_default exampleOS_simps clean_web
      join_web IsNotExist_def under_def Let_def)

theorem DeleteCluster_not_found_witness:
  "init scripted (disconnected [Inl (HTTPErr 404)] []) =
     (None, connected [Inl (HTTPErr 404)] [ReqAuthenticate]) \<and>
   Delete scripted ''web'' (backend (connected [Inl (HTTPErr 404)] [ReqAuthenticate])) =
     (Inl (HTTPErr 404), \<lparr>answers = [], types = []\<rparr>) \<and>
   Cause (HTTPErr 404) = HTTPErr 404 \<and>
   DeleteCluster scripted ''web'' (disconnected [Inl (HTTPErr 404)] []) =
     (Inr (newCluster\<lparr>Status := ''deleted''\<rparr>), connected [] [ReqAuthenticate, ReqDelete ''web'']) \<and>
   ClientDeleteCluster (MakeCOEService scripted) exampleOS examplePackage ''acct'' ''web'' True
       (exampleWorld (connected [Inl (HTTPErr 404)] [])
          [''/home/user/.carina/clusters/acct/web'', ''/home/user/.carina/clusters/acct/web/ca.pem'',
           ''/home/user/.carina/clusters/acct/db'']) =
     Some (None,
       \<lparr>service = connected [] [ReqAuthenticate, ReqDelete ''web''],
        disk = [''/home/user/.carina/clusters/acct/db''],
        cacheCalls = [CacheApply ''acct'', CacheSaveAccount ''acct'']\<rparr>)"
proof -
  let ?disk = "[''/home/user/.carina/clusters/acct/web'', ''/home/user/.carina/clusters/acct/web/ca.pem'',
           ''/home/user/.carina/clusters/acct/db'']"
  let ?w = "exampleWorld (connected [Inl (HTTPErr 404)] []) ?disk"
  let ?w3 = "\<lparr>service = connected [] [ReqAuthenticate, ReqDelete ''web''], disk = ?disk,
      cacheCalls = [CacheApply ''acct'']\<rparr>"
  have i: "init scripted (disconnected [Inl (HTTPErr 404)] []) =
     (None, connected [Inl (HTTPErr 404)] [ReqAuthenticate])"
    using scripted_init[of "[Inl (HTTPErr 404)]" "[]"] by simp
  have d: "Delete scripted ''web'' (backend (connected [Inl (HTTPErr 404)] [ReqAuthenticate])) =
     (Inl (HTTPErr 404), \<lparr>answers = [], types = []\<rparr>)"
    by (simp add: scripted_simps nextAnswer_def connected_def)
  have c: "Cause (HTTPErr 404) = HTTPErr 404"
    by simp
  have s2: "connected [] [ReqAuthenticate, ReqDelete ''web''] =
      (connected [Inl (HTTPErr 404)] [ReqAuthenticate])\<lparr>backend := \<lparr>answers = [], types = []\<rparr>,
        requests := requests (connected [Inl (HTTPErr 404)] [ReqAuthenticate]) @ [ReqDelete ''web'']\<rparr>"
    by (simp add: connected_def)
  have n: "disconnected [Inl (HTTPErr 404)] [] =
      NewClusterService (MakeCOEService scripted) ''acct'' (service ?w) \<and>
      ?w3 = (applyCache ''acct'' ?w)\<lparr>service := connected [] [ReqAuthenticate, ReqDelete ''web'']\<rparr>"
    by (simp add: MakeCOEService_simps exampleWorld_def newMakeCOE_connected applyCache_def)
  note t = DeleteCluster_not_found[OF i d c s2, of "''acct''" ?w ?w3 exampleOS examplePackage True]
  have r: "ClientDeleteCluster (MakeCOEService scripted) exampleOS examplePackage ''acct'' ''web'' True ?w =
     Some (None,
       \<lparr>service = connected [] [ReqAuthenticate, ReqDelete ''web''],
        disk = [''/home/user/.carina/clusters/acct/db''],
        cacheCalls = [CacheApply ''acct'', CacheSaveAccount ''acct'']\<rparr>)"
    using t[THEN conjunct2, THEN conjunct2, THEN mp, OF n]
    by (simp add: example_delete_credentials wrapClientError_def SaveAccount_def)
  from i d c t[THEN conjunct1] r show ?thesis by (intro conjI)
qed

subsection \<open>Saving the account after an operation of the client\<close>

text \<open>
  The calls made to the cache by each operation of the client.
\<close>

lemma cacheCalls_onService: "cacheCalls (snd (onService call w)) = cacheCalls w"
  by (simp add: onService_def split: prod.splits)

lemma cacheCalls_onServiceWait:
  "onServiceWait call w = Some (r, w') \<Longrightarrow> cacheCalls w' = cacheCalls w"
  by (auto simp: onServiceWait_def split: option.splits)

lemma cacheCalls_thenWaitUntilActive:
  "thenWaitUntilActive svc waitUntilActive rw = Some (r, w') \<Longrightarrow> cacheCalls w' = cacheCalls (snd rw)"
  by (cases rw) (auto simp: thenWaitUntilActive_def split: sum.splits if_splits
      dest: cacheCalls_onServiceWait)

lemma cacheCalls_returnWrapped:
  "returnWrapped res = Some (r, w') \<Longrightarrow> \<exists>r0. res = Some (r0, w')"
  by (auto simp: returnWrapped_def split: option.splits)

lemma cacheCalls_waiting:
  assumes "map_option (deferSaveAccount account)
       (case buildContainerService svc account w of
          (Some err, w1) \<Rightarrow> Some (Inl err, w1)
        | (None, w1) \<Rightarrow> returnWrapped (thenWaitUntilActive svc waitUntilActive (onService call w1))) =
     Some (r, w')"
  shows "cacheCalls w' = cacheCalls w @ [CacheApply account, CacheSaveAccount account]"
proof -
  obtain w1 where b: "buildContainerService svc account w = (None, w1)"
    and c1: "cacheCalls w1 = cacheCalls w @ [CacheApply account]"
    by (simp add: buildContainerService_def applyCache_def)
  from assms b obtain r1 w2 where
    rw: "returnWrapped (thenWaitUntilActive svc waitUntilActive (onService call w1)) = Some (r1, w2)"
    and w': "w' = SaveAccount account w2"
    by (auto simp: deferSaveAccount_def)
  from cacheCalls_returnWrapped[OF rw] obtain r0 where
    "thenWaitUntilActive svc waitUntilActive (onService call w1) = Some (r0, w2)" by blast
  from cacheCalls_thenWaitUntilActive[OF this] have "cacheCalls w2 = cacheCalls w1"
    by (simp add: cacheCalls_onService)
  with c1 w' show ?thesis by (simp add: SaveAccount_def)
qed

lemma cacheCalls_simple:
  "cacheCalls (snd (deferSaveAccount account
       (case buildContainerService svc account w of
          (Some err, w1) \<Rightarrow> (Inl err, w1)
        | (None, w1) \<Rightarrow> (case onService call w1 of (r, w2) \<Rightarrow> (wrapResult r, w2))))) =
     cacheCalls w @ [CacheApply account, CacheSaveAccount account]"
  by (simp add: deferSaveAccount_def buildContainerService_def applyCache_def SaveAccount_def
      onService_def split: prod.splits)

lemma cacheCalls_ListClusterTemplates:
  "cacheCalls (snd (ClientListClusterTemplates svc account nameFilter w)) =
     cacheCalls w @ [CacheApply account, CacheSaveAccount account]"
  by (simp add: ClientListClusterTemplates_def deferSaveAccount_def buildContainerService_def
      applyCache_def SaveAccount_def onService_def split: prod.splits sum.splits)

lemma cacheCalls_Download:
  "cacheCalls (snd (ClientDownloadClusterCredentials svc os pk account name customPath w)) =
     cacheCalls w @ [CacheApply account, CacheSaveAccount account]"
  by (simp add: ClientDownloadClusterCredentials_def deferSaveAccount_def buildContainerService_def
      applyCache_def SaveAccount_def onService_def split: prod.splits sum.splits option.splits)

lemma cacheCalls_DeleteCredentials:
  "cacheCalls (snd (ClientDeleteClusterCredentials os pk account name customPath w)) = cacheCalls w"
  by (simp add: ClientDeleteClusterCredentials_def Let_def split: prod.splits option.splits)

lemma cacheCalls_DeleteCluster:
  assumes "ClientDeleteCluster svc os pk account name waitUntilDeleted w = Some (r, w')"
  shows "cacheCalls w' = cacheCalls w @ [CacheApply account, CacheSaveAccount account]"
proof -
  let ?w1 = "(applyCache account w)\<lparr>service := NewClusterService svc account (service w)\<rparr>"
  let ?mid = "(case onService (svcDeleteCluster svc name) ?w1 of
                     (Inr cluster, w2) \<Rightarrow>
                       if waitUntilDeleted then
                         onServiceWait (svcWaitUntilClusterIsDeleted svc cluster) w2
                       else Some (None, w2)
                   | (Inl err, w2) \<Rightarrow> Some (Some err, w2))"
  have c1: "cacheCalls ?w1 = cacheCalls w @ [CacheApply account]"
    by (simp add: applyCache_def)
  have m: "?mid = Some (e, w3) \<Longrightarrow> cacheCalls w3 = cacheCalls ?w1" for e w3
    using cacheCalls_onService[of "svcDeleteCluster svc name" ?w1]
    by (cases "onService (svcDeleteCluster svc name) ?w1")
      (auto split: sum.splits if_splits dest: cacheCalls_onServiceWait)
  from assms obtain e w3 where mid: "?mid = Some (e, w3)"
    by (auto simp: ClientDeleteCluster_def buildContainerService_def split: option.splits)
  from m[OF mid] c1 have c3: "cacheCalls w3 = cacheCalls w @ [CacheApply account]" by simp
  show ?thesis
  proof (cases e)
    case None
    with assms mid have "w' = SaveAccount account (snd (ClientDeleteClusterCredentials os pk account name [] w3))"
      by (auto simp: ClientDeleteCluster_def buildContainerService_def deferSaveAccount_def
          split: prod.splits)
    with c3 show ?thesis
      by (simp add: SaveAccount_def cacheCalls_DeleteCredentials)
  next
    case (Some err)
    with assms mid have "w' = SaveAccount account w3"
      by (auto simp: ClientDeleteCluster_def buildContainerService_def deferSaveAccount_def)
    with c3 show ?thesis by (simp add: SaveAccount_def)
  qed
qed

lemma cacheCalls_GetSourceCommand:
  "cacheCalls (snd (ClientGetSourceCommand svc os pk account shell name customPath w)) =
     (if verifyCredentials pk (fst (buildClusterCredentialsPath pk account name customPath)) (disk w) = None
      then cacheCalls w
      else cacheCalls w @ [CacheApply account, CacheSaveAccount account])"
proof -
  obtain p ignored where b: "buildClusterCredentialsPath pk account name customPath = (p, ignored)"
    by (cases "buildClusterCredentialsPath pk account name customPath")
  show ?thesis
  proof (cases "verifyCredentials pk p (disk w)")
    case None
    with b show ?thesis
      by (simp add: ClientGetSourceCommand_def split: prod.splits sum.splits option.splits)
  next
    case (Some verr)
    obtain r w1 where d: "ClientDownloadClusterCredentials svc os pk account name customPath w = (r, w1)"
      by (cases "ClientDownloadClusterCredentials svc os pk account name customPath w")
    with cacheCalls_Download[of svc os pk account name customPath w]
    have "cacheCalls w1 = cacheCalls w @ [CacheApply account, CacheSaveAccount account]" by simp
    with Some b d show ?thesis
      by (simp add: ClientGetSourceCommand_def split: prod.splits sum.splits option.splits)
  qed
qed

text \<open>
  C1, as amended.  Every operation of the client that builds a cluster service
  (\<open>GetQuotas\<close>, \<open>ListClusters\<close>, \<open>ListClusterTemplates\<close>, \<open>SetAutoScale\<close>,
  \<open>DownloadClusterCredentials\<close>, \<open>CreateCluster\<close>, \<open>GetCluster\<close>, \<open>GrowCluster\<close>,
  \<open>ResizeCluster\<close>, \<open>RebuildCluster\<close>, \<open>DeleteCluster\<close>) calls \<open>Cache.SaveAccount\<close> for
  the account exactly once, as its last call to the cache, whenever it returns and
  whatever it returns, an error included.  \<open>GetSourceCommand\<close> calls it only by way of
  \<open>DownloadClusterCredentials\<close>, that is only when the credentials on disk do not
  verify, and \<open>DeleteClusterCredentials\<close> never calls it.
\<close>

theorem Client_operations_SaveAccount:
  "cacheCalls (snd (ClientGetQuotas svc account w)) =
     cacheCalls w @ [CacheApply account, CacheSaveAccount account] \<and>
   cacheCalls (snd (ClientListClusters svc account w)) =
     cacheCalls w @ [CacheApply account, CacheSaveAccount account] \<and>
   cacheCalls (snd (ClientListClusterTemplates svc account nameFilter w)) =
     cacheCalls w @ [CacheApply account, CacheSaveAccount account] \<and>
   cacheCalls (snd (ClientSetAutoScale svc account name v w)) =
     cacheCalls w @ [CacheApply account, CacheSaveAccount account] \<and>
   cacheCalls (snd (ClientDownloadClusterCredentials svc os pk account name customPath w)) =
     cacheCalls w @ [CacheApply account, CacheSaveAccount account] \<and>
   (ClientCreateCluster svc account name templateName nodes waitUntilActive w = Some (r1, w1) \<longrightarrow>
      cacheCalls w1 = cacheCalls w @ [CacheApply account, CacheSaveAccount account]) \<and>
   (ClientGetCluster svc account name waitUntilActive w = Some (r2, w2) \<longrightarrow>
      cacheCalls w2 = cacheCalls w @ [CacheApply account, CacheSaveAccount account]) \<and>
   (ClientGrowCluster svc account name nodes waitUntilActive w = Some (r3, w3) \<longrightarrow>
      cacheCalls w3 = cacheCalls w @ [CacheApply account, CacheSaveAccount account]) \<and>
   (ClientResizeCluster svc account name nodes waitUntilActive w = Some (r4, w4) \<longrightarrow>
      cacheCalls w4 = cacheCalls w @ [CacheApply account, CacheSaveAccount account]) \<and>
   (ClientRebuildCluster svc account name waitUntilActive w = Some (r5, w5) \<longrightarrow>
      cacheCalls w5 = cacheCalls w @ [CacheApply account, CacheSaveAccount account]) \<and>
   (ClientDeleteCluster svc os pk account name waitUntilDeleted w = Some (r6, w6) \<longrightarrow>
      cacheCalls w6 = cacheCalls w @ [CacheApply account, CacheSaveAccount account]) \<and>
   cacheCalls (snd (ClientGetSourceCommand svc os pk account shell name customPath w)) =
     (if verifyCredentials pk (fst (buildClusterCredentialsPath pk account name customPath)) (disk w) = None
      then cacheCalls w
      else cacheCalls w @ [CacheApply account, CacheSaveAccount account]) \<and>
   cacheCalls (snd (ClientDeleteClusterCredentials os pk account name customPath w)) = cacheCalls w"
proof (intro conjI impI)
  show "cacheCalls (snd (ClientGetQuotas svc account w)) =
     cacheCalls w @ [CacheApply account, CacheSaveAccount account]"
    unfolding ClientGetQuotas_def by (rule cacheCalls_simple)
  show "cacheCalls (snd (ClientListClusters svc account w)) =
     cacheCalls w @ [CacheApply account, CacheSaveAccount account]"
    unfolding ClientListClusters_def by (rule cacheCalls_simple)
  show "cacheCalls (snd (ClientListClusterTemplates svc account nameFilter w)) =
     cacheCalls w @ [CacheApply account, CacheSaveAccount account]"
    by (rule cacheCalls_ListClusterTemplates)
  show "cacheCalls (snd (ClientSetAutoScale svc account name v w)) =
     cacheCalls w @ [CacheApply account, CacheSaveAccount account]"
    unfolding ClientSetAutoScale_def by (rule cacheCalls_simple)
  show "cacheCalls (snd (ClientDownloadClusterCredentials svc os pk account name customPath w)) =
     cacheCalls w @ [CacheApply account, CacheSaveAccount account]"
    by (rule cacheCalls_Download)
  show "cacheCalls w1 = cacheCalls w @ [CacheApply account, CacheSaveAccount account]"
    if "ClientCreateCluster svc account name templateName nodes waitUntilActive w = Some (r1, w1)"
    using that unfolding ClientCreateCluster_def by (rule cacheCalls_waiting)
  show "cacheCalls w2 = cacheCalls w @ [CacheApply account, CacheSaveAccount account]"
    if "ClientGetCluster svc account name waitUntilActive w = Some (r2, w2)"
    using that unfolding ClientGetCluster_def by (rule cacheCalls_waiting)
  show "cacheCalls w3 = cacheCalls w @ [CacheApply account, CacheSaveAccount account]"
    if "ClientGrowCluster svc account name nodes waitUntilActive w = Some (r3, w3)"
    using that unfolding ClientGrowCluster_def by (rule cacheCalls_waiting)
  show "cacheCalls w4 = cacheCalls w @ [CacheApply account, CacheSaveAccount account]"
    if "ClientResizeCluster svc account name nodes waitUntilActive w = Some (r4, w4)"
    using that unfolding ClientResizeCluster_def by (rule cacheCalls_waiting)
  show "cacheCalls w5 = cacheCalls w @ [CacheApply account, CacheSaveAccount account]"
    if "ClientRebuildCluster svc account name waitUntilActive w = Some (r5, w5)"
    using that unfolding ClientRebuildCluster_def by (rule cacheCalls_waiting)
  show "cacheCalls w6 = cacheCalls w @ [CacheApply account, CacheSaveAccount account]"
    if "ClientDeleteCluster svc os pk account name waitUntilDeleted w = Some (r6, w6)"
    using that by (rule cacheCalls_DeleteCluster)
  show "cacheCalls (snd (ClientGetSourceCommand svc os pk account shell name customPath w)) =
     (if verifyCredentials pk (fst (buildClusterCredentialsPath pk account name customPath)) (disk w) = None
      then cacheCalls w
      else cacheCalls w @ [CacheApply account, CacheSaveAccount account])"
    by (rule cacheCalls_GetSourceCommand)
  show "cacheCalls (snd (ClientDeleteClusterCredentials os pk account name customPath w)) = cacheCalls w"
    by (rule cacheCalls_DeleteCredentials)
qed


lemma example_verify_ok:
  "verifyCredentials examplePackage ''/home/user/.carina/clusters/acct/web''
     [''/home/user/.carina/clusters/acct/web'', ''/home/user/.carina/clusters/acct/web/ca.pem''] = None"
  by (simp add: examplePackage_def join_web)

lemma join_env: "lexicalJoin ''/home/user/.carina/clusters/acct/web'' ''docker.env'' = ''/home/user/.carina/clusters/acct/web/docker.env''"
  by code_simp

text \<open>
  C1 as stated fails: with a valid bundle on disk \<open>GetSourceCommand\<close> returns the source
  command and \<open>SaveAccount\<close> is not called; \<open>DeleteClusterCredentials\<close>, called on the
  root path, returns its error and \<open>SaveAccount\<close> is not called either.
\<close>

theorem GetSourceCommand_without_SaveAccount_counterexample:
  "ClientGetSourceCommand (MakeCOEService scripted) exampleOS examplePackage ''acct'' ''bash'' ''web'' []
       (exampleWorld (connected [] [])
          [''/home/user/.carina/clusters/acct/web'', ''/home/user/.carina/clusters/acct/web/ca.pem'']) =
     (Inr ''source /home/user/.carina/clusters/acct/web/docker.env'',
      exampleWorld (connected [] [])
          [''/home/user/.carina/clusters/acct/web'', ''/home/user/.carina/clusters/acct/web/ca.pem'']) \<and>
   CacheSaveAccount ''acct'' \<notin> set (cacheCalls (snd
     (ClientGetSourceCommand (MakeCOEService scripted) exampleOS examplePackage ''acct'' ''bash'' ''web'' []
       (exampleWorld (connected [] [])
          [''/home/user/.carina/clusters/acct/web'', ''/home/user/.carina/clusters/acct/web/ca.pem''])))) \<and>
   ClientDeleteClusterCredentials exampleOS examplePackage ''acct'' ''web'' ''/''
       (exampleWorld (connected [] []) []) =
     (Some (ErrorString ''Path to cluster is empty, the current directory, or a root path, not deleting''),
      exampleWorld (connected [] []) []) \<and>
   CacheSaveAccount ''acct'' \<notin> set (cacheCalls (exampleWorld (connected [] []) []))"
proof -
  let ?w = "exampleWorld (connected [] [])
          [''/home/user/.carina/clusters/acct/web'', ''/home/user/.carina/clusters/acct/web/ca.pem'']"
  have v: "verifyCredentials examplePackage ''/home/user/.carina/clusters/acct/web'' (disk ?w) = None"
    by (simp add: exampleWorld_def example_verify_ok)
  have g: "getCredentialScriptPath examplePackage ''/home/user/.carina/clusters/acct/web'' ''bash'' (disk ?w) =
      (''/home/user/.carina/clusters/acct/web/docker.env'', None)"
    by (simp add: examplePackage_def join_env)
  have h: "sourceHelpString examplePackage ''/home/user/.carina/clusters/acct/web/docker.env'' ''web'' ''bash'' =
      ''source /home/user/.carina/clusters/acct/web/docker.env''"
    by (simp add: examplePackage_def)
  have r: "ClientGetSourceCommand (MakeCOEService scripted) exampleOS examplePackage ''acct'' ''bash'' ''web'' [] ?w =
     (Inr ''source /home/user/.carina/clusters/acct/web/docker.env'', ?w)"
    by (simp add: ClientGetSourceCommand_def example_build_default v g h)
  have c: "lexicalClean ''/'' = ''/''"
    by code_simp
  have d: "ClientDeleteClusterCredentials exampleOS examplePackage ''acct'' ''web'' ''/''
       (exampleWorld (connected [] []) []) =
     (Some (ErrorString ''Path to cluster is empty, the current directory, or a root path, not deleting''),
      exampleWorld (connected [] []) [])"
    by (simp add: ClientDeleteClusterCredentials_def examplePackage_def exampleOS_simps c)
  show ?thesis
    unfolding r d by (simp add: exampleWorld_def)
qed


lemma scripted_fresh_runs:
  "GetCluster scripted ''web'' (disconnected [Inr (web ''building'')] []) =
     (Inr (web ''building''), connected [] [ReqAuthenticate, ReqGet ''web''])"
  "ResizeCluster scripted ''web'' 3 (disconnected [Inl (HTTPErr 500)] []) =
     (Inl (HTTPErr 500), connected [] [ReqAuthenticate, ReqResize ''web'' 3])"
  "DeleteCluster scripted ''web'' (disconnected [Inl (ErrorString ''timeout'')] []) =
     (Inl (Wrapped (ErrorString ''timeout'') ''[make-coe] Unable to delete cluster (web)''),
      connected [] [ReqAuthenticate, ReqDelete ''web''])"
  by (simp_all add: GetCluster_def ResizeCluster_def DeleteCluster_def init_def send_def
      scripted_def nextAnswer_def connected_def disconnected_def
      handleLibcarinaError_def handleHTTPError_def)

lemma example_create_no_template:
  "ClientCreateCluster (MakeCOEService scripted) ''acct'' ''web'' [] 1 True
       (exampleWorld (connected [] []) []) =
     Some (Inl (ClientError (ErrorString ''--template is required'')),
       \<lparr>service = disconnected [] [], disk = [],
        cacheCalls = [CacheApply ''acct'', CacheSaveAccount ''acct'']\<rparr>)"
  by (simp add: ClientCreateCluster_def buildContainerService_def applyCache_def onService_def
      MakeCOEService_simps exampleWorld_def newMakeCOE_connected CreateCluster_def
      thenWaitUntilActive_def returnWrapped_def wrapResult_def newClientError_def
      deferSaveAccount_def SaveAccount_def)

lemma example_get:
  "ClientGetCluster (MakeCOEService scripted) ''acct'' ''web'' False
       (exampleWorld (connected [Inr (web ''building'')] []) []) =
     Some (Inr (web ''building''),
       \<lparr>service = connected [] [ReqAuthenticate, ReqGet ''web''], disk = [],
        cacheCalls = [CacheApply ''acct'', CacheSaveAccount ''acct'']\<rparr>)"
  by (simp add: ClientGetCluster_def buildContainerService_def applyCache_def onService_def
      MakeCOEService_simps exampleWorld_def newMakeCOE_connected scripted_fresh_runs
      thenWaitUntilActive_def returnWrapped_def wrapResult_def
      deferSaveAccount_def SaveAccount_def)

lemma example_grow:
  "ClientGrowCluster (MakeCOEService scripted) ''acct'' ''web'' 3 True
       (exampleWorld (connected [] []) []) =
     Some (Inl (ClientError (ErrorString ''[make-coe] Grow command not supported. Please use 'resize'.'')),
       \<lparr>service = disconnected [] [], disk = [],
        cacheCalls = [CacheApply ''acct'', CacheSaveAccount ''acct'']\<rparr>)"
  by (simp add: ClientGrowCluster_def buildContainerService_def applyCache_def onService_def
      MakeCOEService_simps exampleWorld_def newMakeCOE_connected GrowCluster_def
      thenWaitUntilActive_def returnWrapped_def wrapResult_def newClientError_def
      deferSaveAccount_def SaveAccount_def)

lemma example_resize:
  "ClientResizeCluster (MakeCOEService scripted) ''acct'' ''web'' 3 True
       (exampleWorld (connected [Inl (HTTPErr 500)] []) []) =
     Some (Inl (ClientError (HTTPErr 500)),
       \<lparr>service = connected [] [ReqAuthenticate, ReqResize ''web'' 3], disk = [],
        cacheCalls = [CacheApply ''acct'', CacheSaveAccount ''acct'']\<rparr>)"
  by (simp add: ClientResizeCluster_def buildContainerService_def applyCache_def onService_def
      MakeCOEService_simps exampleWorld_def newMakeCOE_connected scripted_fresh_runs
      thenWaitUntilActive_def returnWrapped_def wrapResult_def newClientError_def
      deferSaveAccount_def SaveAccount_def)

lemma example_rebuild:
  "ClientRebuildCluster (MakeCOEService scripted) ''acct'' ''web'' True
       (exampleWorld (connected [] []) []) =
     Some (Inl (ClientError
         (ErrorString ''[make-coe] Rebuilding clusters from the carina cli is not supported yet'')),
       \<lparr>service = disconnected [] [], disk = [],
        cacheCalls = [CacheApply ''acct'', CacheSaveAccount ''acct'']\<rparr>)"
  by (simp add: ClientRebuildCluster_def buildContainerService_def applyCache_def onService_def
      MakeCOEService_simps exampleWorld_def newMakeCOE_connected RebuildCluster_def
      thenWaitUntilActive_def returnWrapped_def wrapResult_def newClientError_def
      deferSaveAccount_def SaveAccount_def)

lemma example_delete_failed:
  "ClientDeleteCluster (MakeCOEService scripted) exampleOS examplePackage ''acct'' ''web'' True
       (exampleWorld (connected [Inl (ErrorString ''timeout'')] []) []) =
     Some (Some (ClientError
         (Wrapped (ErrorString ''timeout'') ''[make-coe] Unable to delete cluster (web)'')),
       \<lparr>service = connected [] [ReqAuthenticate, ReqDelete ''web''], disk = [],
        cacheCalls = [CacheApply ''acct'', CacheSaveAccount ''acct'']\<rparr>)"
  by (simp add: ClientDeleteCluster_def buildContainerService_def applyCache_def onService_def
      MakeCOEService_simps exampleWorld_def newMakeCOE_connected scripted_fresh_runs
      wrapClientError_def newClientError_def deferSaveAccount_def SaveAccount_def)

text \<open>
  Runs on the scripted backend, most of them returning an error: in each the account is
  saved once, after the cache was applied.
\<close>

theorem Client_operations_SaveAccount_witness:
  "ClientCreateCluster (MakeCOEService scripted) ''acct'' ''web'' [] 1 True
       (exampleWorld (connected [] []) []) =
     Some (Inl (ClientError (ErrorString ''--template is required'')),
       \<lparr>service = disconnected [] [], disk = ([] :: string list),
        cacheCalls = [CacheApply ''acct'', CacheSaveAccount ''acct'']\<rparr>) \<and>
   cacheCalls \<lparr>service = disconnected [] [], disk = ([] :: string list),
      cacheCalls = [CacheApply ''acct'', CacheSaveAccount ''acct'']\<rparr> =
     cacheCalls (exampleWorld (connected [] []) []) @ [CacheApply ''acct'', CacheSaveAccount ''acct''] \<and>
   ClientGetCluster (MakeCOEService scripted) ''acct'' ''web'' False
       (exampleWorld (connected [Inr (web ''building'')] []) []) =
     Some (Inr (web ''building''),
       \<lparr>service = connected [] [ReqAuthenticate, ReqGet ''web''], disk = ([] :: string list),
        cacheCalls = [CacheApply ''acct'', CacheSaveAccount ''acct'']\<rparr>) \<and>
   cacheCalls \<lparr>service = connected [] [ReqAuthenticate, ReqGet ''web''], disk = ([] :: string list),
      cacheCalls = [CacheApply ''acct'', CacheSaveAccount ''acct'']\<rparr> =
     cacheCalls (exampleWorld (connected [Inr (web ''building'')] []) []) @ [CacheApply ''acct'', CacheSaveAccount ''acct''] \<and>
   ClientGrowCluster (MakeCOEService scripted) ''acct'' ''web'' 3 True
       (exampleWorld (connected [] []) []) =
     Some (Inl (ClientError (ErrorString ''[make-coe] Grow command not supported. Please use 'resize'.'')),
       \<lparr>service = disconnected [] [], disk = ([] :: string list),
        cacheCalls = [CacheApply ''acct'', CacheSaveAccount ''acct'']\<rparr>) \<and>
   cacheCalls \<lparr>service = disconnected [] [], disk = ([] :: string list),
      cacheCalls = [CacheApply ''acct'', CacheSaveAccount ''acct'']\<rparr> =
     cacheCalls (exampleWorld (connected [] []) []) @ [CacheApply ''acct'', CacheSaveAccount ''acct''] \<and>
   ClientResizeCluster (MakeCOEService scripted) ''acct'' ''web'' 3 True
       (exampleWorld (connected [Inl (HTTPErr 500)] []) []) =
     Some (Inl (ClientError (HTTPErr 500)),
       \<lparr>service = connected [] [ReqAuthenticate, ReqResize ''web'' 3], disk = ([] :: string list),
        cacheCalls = [CacheApply ''acct'', CacheSaveAccount ''acct'']\<rparr>) \<and>
   cacheCalls \<lparr>service = connected [] [ReqAuthenticate, ReqResize ''web'' 3], disk = ([] :: string list),
      cacheCalls = [CacheApply ''acct'', CacheSaveAccount ''acct'']\<rparr> =
     cacheCalls (exampleWorld (connected [Inl (HTTPErr 500)] []) []) @ [CacheApply ''acct'', CacheSaveAccount ''acct''] \<and>
   ClientRebuildCluster (MakeCOEService scripted) ''acct'' ''web'' True
       (exampleWorld (connected [] []) []) =
     Some (Inl (ClientError
         (ErrorString ''[make-coe] Rebuilding clusters from the carina cli is not supported yet'')),
       \<lparr>service = disconnected [] [], disk = ([] :: string list),
        cacheCalls = [CacheApply ''acct'', CacheSaveAccount ''acct'']\<rparr>) \<and>
   cacheCalls \<lparr>service = disconnected [] [], disk = ([] :: string list),
      cacheCalls = [CacheApply ''acct'', CacheSaveAccount ''acct'']\<rparr> =
     cacheCalls (exampleWorld (connected [] []) []) @ [CacheApply ''acct'', CacheSaveAccount ''acct''] \<and>
   ClientDeleteCluster (MakeCOEService scripted) exampleOS examplePackage ''acct'' ''web'' True
       (exampleWorld (connected [Inl (ErrorString ''timeout'')] []) []) =
     Some (Some (ClientError
         (Wrapped (ErrorString ''timeout'') ''[make-coe] Unable to delete cluster (web)'')),
       \<lparr>service = connected [] [ReqAuthenticate, ReqDelete ''web''], disk = ([] :: string list),
        cacheCalls = [CacheApply ''acct'', CacheSaveAccount ''acct'']\<rparr>) \<and>
   cacheCalls \<lparr>service = connected [] [ReqAuthenticate, ReqDelete ''web''], disk = ([] :: string list),
      cacheCalls = [CacheApply ''acct'', CacheSaveAccount ''acct'']\<rparr> =
     cacheCalls (exampleWorld (connected [Inl (ErrorString ''timeout'')] []) []) @ [CacheApply ''acct'', CacheSaveAccount ''acct''] \<and>
   cacheCalls (snd (ClientGetQuotas (MakeCOEService scripted) ''acct''
       (exampleWorld (connected [] []) []))) =
     cacheCalls (exampleWorld (connected [] []) []) @ [CacheApply ''acct'', CacheSaveAccount ''acct''] \<and>
   cacheCalls (snd (ClientListClusters (MakeCOEService scripted) ''acct''
       (exampleWorld (connected [] []) []))) =
     cacheCalls (exampleWorld (connected [] []) []) @ [CacheApply ''acct'', CacheSaveAccount ''acct''] \<and>
   cacheCalls (snd (ClientDownloadClusterCredentials (MakeCOEService scripted) exampleOS examplePackage
       ''acct'' ''web'' [] (exampleWorld (connected [] []) []))) =
     cacheCalls (exampleWorld (connected [] []) []) @ [CacheApply ''acct'', CacheSaveAccount ''acct'']"
proof -
  have create: "cacheCalls \<lparr>service = disconnected [] [], disk = ([] :: string list),
          cacheCalls = [CacheApply ''acct'', CacheSaveAccount ''acct'']\<rparr> =
         cacheCalls (exampleWorld (connected [] []) []) @ [CacheApply ''acct'', CacheSaveAccount ''acct'']"
    using Client_operations_SaveAccount[THEN conjunct2, THEN conjunct2, THEN conjunct2, THEN conjunct2, THEN conjunct2, THEN conjunct1, THEN mp, OF example_create_no_template] .
  have get: "cacheCalls \<lparr>service = connected [] [ReqAuthenticate, ReqGet ''web''], disk = ([] :: string list),
          cacheCalls = [CacheApply ''acct'', CacheSaveAccount ''acct'']\<rparr> =
         cacheCalls (exampleWorld (connected [Inr (web ''building'')] []) []) @ [CacheApply ''acct'', CacheSaveAccount ''acct'']"
    using Client_operations_SaveAccount[THEN conjunct2, THEN conjunct2, THEN conjunct2, THEN conjunct2, THEN conjunct2, THEN conjunct2, THEN conjunct1, THEN mp, OF example_get] .
  have grow: "cacheCalls \<lparr>service = disconnected [] [], disk = ([] :: string list),
          cacheCalls = [CacheApply ''acct'', CacheSaveAccount ''acct'']\<rparr> =
         cacheCalls (exampleWorld (connected [] []) []) @ [CacheApply ''acct'', CacheSaveAccount ''acct'']"
    using Client_operations_SaveAccount[THEN conjunct2, THEN conjunct2, THEN conjunct2, THEN conjunct2, THEN conjunct2, THEN conjunct2, THEN conjunct2, THEN conjunct1, THEN mp, OF example_grow] .
  have resize: "cacheCalls \<lparr>service = connected [] [ReqAuthenticate, ReqResize ''web'' 3], disk = ([] :: string list),
          cacheCalls = [CacheApply ''acct'', CacheSaveAccount ''acct'']\<rparr> =
         cacheCalls (exampleWorld (connected [Inl (HTTPErr 500)] []) []) @ [CacheApply ''acct'', CacheSaveAccount ''acct'']"
    using Client_operations_SaveAccount[THEN conjunct2, THEN conjunct2, THEN conjunct2, THEN conjunct2, THEN conjunct2, THEN conjunct2, THEN conjunct2, THEN conjunct2, THEN conjunct1, THEN mp, OF example_resize] .
  have rebuild: "cacheCalls \<lparr>service = disconnected [] [], disk = ([] :: string list),
          cacheCalls = [CacheApply ''acct'', CacheSaveAccount ''acct'']\<rparr> =
         cacheCalls (exampleWorld (connected [] []) []) @ [CacheApply ''acct'', CacheSaveAccount ''acct'']"
    using Client_operations_SaveAccount[THEN conjunct2, THEN conjunct2, THEN conjunct2, THEN conjunct2, THEN conjunct2, THEN conjunct2, THEN conjunct2, THEN conjunct2, THEN conjunct2, THEN conjunct1, THEN mp, OF example_rebuild] .
  have delete: "cacheCalls \<lparr>service = connected [] [ReqAuthenticate, ReqDelete ''web''], disk = ([] :: string list),
          cacheCalls = [CacheApply ''acct'', CacheSaveAccount ''acct'']\<rparr> =
         cacheCalls (exampleWorld (connected [Inl (ErrorString ''timeout'')] []) []) @ [CacheApply ''acct'', CacheSaveAccount ''acct'']"
    using Client_operations_SaveAccount[THEN conjunct2, THEN conjunct2, THEN conjunct2, THEN conjunct2, THEN conjunct2, THEN conjunct2, THEN conjunct2, THEN conjunct2, THEN conjunct2, THEN conjunct2, THEN conjunct1, THEN mp, OF example_delete_failed] .
  have q: "cacheCalls (snd (ClientGetQuotas (MakeCOEService scripted) ''acct''
           (exampleWorld (connected [] []) []))) =
         cacheCalls (exampleWorld (connected [] []) []) @ [CacheApply ''acct'', CacheSaveAccount ''acct'']"
    using Client_operations_SaveAccount[THEN conjunct1] .
  have l: "cacheCalls (snd (ClientListClusters (MakeCOEService scripted) ''acct''
           (exampleWorld (connected [] []) []))) =
         cacheCalls (exampleWorld (connected [] []) []) @ [CacheApply ''acct'', CacheSaveAccount ''acct'']"
    using Client_operations_SaveAccount[THEN conjunct2, THEN conjunct1] .
  have d: "cacheCalls (snd (ClientDownloadClusterCredentials (MakeCOEService scripted) exampleOS examplePackage
           ''acct'' ''web'' [] (exampleWorld (connected [] []) []))) =
         cacheCalls (exampleWorld (connected [] []) []) @ [CacheApply ''acct'', CacheSaveAccount ''acct'']"
    using Client_operations_SaveAccount[THEN conjunct2, THEN conjunct2, THEN conjunct2, THEN conjunct2, THEN conjunct1] .
  from example_create_no_template create example_get get example_grow grow example_resize resize example_rebuild rebuild example_delete_failed delete q l d
  show ?thesis by (intro conjI)
qed

end
